theory Spec2Isabelle
  imports Complex_Main "HOL-Library.Multiset"
begin

section \<open>Data model (TaskModel and TaskScheduler.ts)\<close>

text \<open>
  A JavaScript \<open>Date\<close> is modelled by its time value: the number of milliseconds since
  the epoch, an \<open>int\<close>. Invalid dates and the clipping of the time value are left out.
  \<open>d.setMinutes(d.getMinutes() + n)\<close> moves an instant by \<open>n\<close> minutes; changes of the
  local UTC offset in between (daylight saving) are left out.
  An optional field (\<open>startTime?: Date\<close>) is an \<open>option\<close>: \<open>None\<close> is \<open>undefined\<close>, and
  a present \<open>Date\<close> object is always truthy.
\<close>

datatype TaskType = FIXED | ROUTINE | FLEXIBLE

datatype TaskPriority = HIGH | MEDIUM | LOW

record TimeRange =
  range_start :: int
  range_end :: int

record Task =
  task_id :: string
  name :: string
  type :: TaskType
  priority :: TaskPriority
  duration :: int
  startTime :: "int option"
  endTime :: "int option"
  preferredTimeRange :: "TimeRange option"
  frequency :: "string option"
  createdAt :: int
  updatedAt :: int

record TimeSlot =
  slot_start :: int
  slot_end :: int
  available :: bool

datatype error = Error string

text \<open>
  The caller's task array is an object on the heap; the scheduler keeps a reference to it.
  A heap maps a reference to the array's current contents.
\<close>

type_synonym ref = nat

type_synonym heap = "ref \<Rightarrow> Task list"

record TaskScheduler =
  tasks :: ref
  workdayStart :: int
  workdayEnd :: int

text \<open>
  The system clock: \<open>clk k\<close> is what the \<open>k\<close>-th evaluation of \<open>new Date()\<close> returns.
  Functions that read the clock take the number of readings made so far and return the
  new number.
\<close>

type_synonym clock = "nat \<Rightarrow> int"

definition addMinutes :: "int \<Rightarrow> int \<Rightarrow> int" where
  "addMinutes t n = t + n * 60000"

text \<open>
  The constructor stores the reference it is given (no copy) and reads the clock twice.
  \<open>setHours t h\<close> stands for \<open>Date.prototype.setHours(h, 0, 0, 0)\<close> on the instant \<open>t\<close>:
  it depends on the host's time zone and is a parameter.
\<close>

definition newTaskScheduler ::
  "(int \<Rightarrow> int \<Rightarrow> int) \<Rightarrow> clock \<Rightarrow> nat \<Rightarrow> ref \<Rightarrow> TaskScheduler \<times> nat" where
  "newTaskScheduler setHours clk k tasksRef =
     (\<lparr>tasks = tasksRef,
       workdayStart = setHours (clk k) 8,
       workdayEnd = setHours (clk (Suc k)) 20\<rparr>, Suc (Suc k))"

section \<open>Prioritization\<close>

text \<open>
  The enums are string enums; \<open>priorityOrder\<close> is an object literal keyed by their values.
\<close>

fun typeKey :: "TaskType \<Rightarrow> string" where
  "typeKey FIXED = ''fixed''"
| "typeKey ROUTINE = ''routine''"
| "typeKey FLEXIBLE = ''flexible''"

fun priorityKey :: "TaskPriority \<Rightarrow> string" where
  "priorityKey HIGH = ''high''"
| "priorityKey MEDIUM = ''medium''"
| "priorityKey LOW = ''low''"

definition priorityOrder :: "(string \<times> nat) list" where
  "priorityOrder = [(''fixed'', 4), (''high'', 3), (''routine'', 2), (''flexible'', 1)]"

text \<open>\<open>a || b\<close> on numbers that may be \<open>undefined\<close>: \<open>undefined\<close> and \<open>0\<close> are falsy.\<close>

fun truthy :: "nat option \<Rightarrow> bool" where
  "truthy None = False"
| "truthy (Some n) = (n \<noteq> 0)"

definition orElse :: "nat option \<Rightarrow> nat option \<Rightarrow> nat option" where
  "orElse a b = (if truthy a then a else b)"

definition taskRank :: "Task \<Rightarrow> nat" where
  "taskRank a =
     (case orElse (orElse (map_of priorityOrder (typeKey (type a)))
                          (map_of priorityOrder (priorityKey (priority a))))
                  (Some 0) of
        Some n \<Rightarrow> n
      | None \<Rightarrow> 0)"

definition compareTasks :: "Task \<Rightarrow> Task \<Rightarrow> int" where
  "compareTasks a b = int (taskRank b) - int (taskRank a)"

text \<open>
  \<open>Array.prototype.sort\<close> with a comparator is a stable sort (ECMAScript 2019): an
  element goes before another when the comparator is negative, and elements that compare
  equal keep their order.
\<close>

fun insertBy :: "('a \<Rightarrow> 'a \<Rightarrow> int) \<Rightarrow> 'a \<Rightarrow> 'a list \<Rightarrow> 'a list" where
  "insertBy cmp x [] = [x]"
| "insertBy cmp x (y # ys) = (if cmp x y \<le> 0 then x # y # ys else y # insertBy cmp x ys)"

definition sortBy :: "('a \<Rightarrow> 'a \<Rightarrow> int) \<Rightarrow> 'a list \<Rightarrow> 'a list" where
  "sortBy cmp xs = foldr (insertBy cmp) xs []"

text \<open>
  \<open>this.tasks.sort(...)\<close> sorts the array behind the reference in place and returns the
  same reference.
\<close>

definition prioritizeTasks :: "TaskScheduler \<Rightarrow> heap \<Rightarrow> heap \<times> ref" where
  "prioritizeTasks sch h = (h(tasks sch := sortBy compareTasks (h (tasks sch))), tasks sch)"

section \<open>Slot generation\<close>

function generateLoop :: "TimeSlot list \<Rightarrow> int \<Rightarrow> int \<Rightarrow> TimeSlot list" where
  "generateLoop slots currentTime wEnd =
     (if currentTime < wEnd
      then (let slotEnd = addMinutes currentTime 30
            in generateLoop
                 (slots @ [\<lparr>slot_start = currentTime, slot_end = slotEnd, available = True\<rparr>])
                 slotEnd wEnd)
      else slots)"
  by pat_completeness auto
termination
  by (relation "measure (\<lambda>(slots, currentTime, wEnd). nat (wEnd - currentTime))")
     (auto simp: addMinutes_def)

declare generateLoop.simps [simp del]

definition generateTimeSlots :: "TaskScheduler \<Rightarrow> TimeSlot list" where
  "generateTimeSlots sch = generateLoop [] (workdayStart sch) (workdayEnd sch)"

section \<open>Placement\<close>

definition canFitTask :: "TimeSlot \<Rightarrow> Task \<Rightarrow> bool" where
  "canFitTask slot task =
     (let requiredMinutes = real_of_int (duration task);
          slotDuration = real_of_int (slot_end slot - slot_start slot) / (1000 * 60)
      in slotDuration \<ge> requiredMinutes)"

text \<open>
  \<open>calculateEndTime(task, startTime?)\<close>: without a start time the end is counted from the
  clock (\<open>new Date()\<close>).
\<close>

definition calculateEndTime :: "clock \<Rightarrow> nat \<Rightarrow> Task \<Rightarrow> int option \<Rightarrow> int \<times> nat" where
  "calculateEndTime clk k task start =
     (case start of
        Some s \<Rightarrow> (addMinutes s (duration task), k)
      | None \<Rightarrow> (addMinutes (clk k) (duration task), Suc k))"

definition isWithinWorkday :: "TaskScheduler \<Rightarrow> int \<Rightarrow> bool" where
  "isWithinWorkday sch time = (time \<ge> workdayStart sch \<and> time \<le> workdayEnd sch)"

definition scheduleFixedTask ::
  "TaskScheduler \<Rightarrow> clock \<Rightarrow> nat \<Rightarrow> Task \<Rightarrow> error + (Task \<times> nat)" where
  "scheduleFixedTask sch clk k task =
     (if startTime task \<noteq> None \<and> isWithinWorkday sch (the (startTime task))
      then (let (e, k') = calculateEndTime clk k task None
            in Inr (task\<lparr>endTime := Some e\<rparr>, k'))
      else Inl (Error ''Fixed task outside of workday''))"

text \<open>
  The slot objects are created once, one per position of \<open>availableSlots\<close>; \<open>filter\<close> and
  \<open>find\<close> hand out references to them. A reference to a slot is its position in the list,
  and \<open>selectedSlot.available = false\<close> updates the list at that position.
\<close>

definition markUnavailable :: "TimeSlot list \<Rightarrow> nat \<Rightarrow> TimeSlot list" where
  "markUnavailable slots i = slots[i := (slots ! i)\<lparr>available := False\<rparr>]"

definition scheduleTaskWithPreference ::
  "Task \<Rightarrow> TimeSlot list \<Rightarrow> Task option \<times> TimeSlot list" where
  "scheduleTaskWithPreference task availableSlots =
     (case preferredTimeRange task of
        None \<Rightarrow> (None, availableSlots)
      | Some r \<Rightarrow>
          (let preferredSlots =
                 filter (\<lambda>i. slot_start (availableSlots ! i) \<ge> range_start r \<and>
                              slot_end (availableSlots ! i) \<le> range_end r \<and>
                              available (availableSlots ! i))
                        [0 ..< length availableSlots]
           in if length preferredSlots > 0
              then (case List.find (\<lambda>i. canFitTask (availableSlots ! i) task) preferredSlots of
                      Some selectedSlot \<Rightarrow>
                        (Some (task\<lparr>startTime := Some (slot_start (availableSlots ! selectedSlot)),
                                    endTime := Some (addMinutes
                                      (slot_start (availableSlots ! selectedSlot)) (duration task))\<rparr>),
                         markUnavailable availableSlots selectedSlot)
                    | None \<Rightarrow> (None, availableSlots))
              else (None, availableSlots)))"

definition scheduleFlexibleTask ::
  "Task \<Rightarrow> TimeSlot list \<Rightarrow> Task option \<times> TimeSlot list" where
  "scheduleFlexibleTask task availableSlots =
     (let availableForTask =
            filter (\<lambda>i. available (availableSlots ! i) \<and> canFitTask (availableSlots ! i) task)
                   [0 ..< length availableSlots]
      in if length availableForTask > 0
         then (let selectedSlot = availableForTask ! 0
               in (Some (task\<lparr>startTime := Some (slot_start (availableSlots ! selectedSlot)),
                              endTime := Some (addMinutes
                                (slot_start (availableSlots ! selectedSlot)) (duration task))\<rparr>),
                   markUnavailable availableSlots selectedSlot))
         else (None, availableSlots))"

definition scheduleTask ::
  "TaskScheduler \<Rightarrow> clock \<Rightarrow> nat \<Rightarrow> Task \<Rightarrow> TimeSlot list
     \<Rightarrow> error + (Task option \<times> TimeSlot list \<times> nat)" where
  "scheduleTask sch clk k task availableSlots =
     (if type task = FIXED \<and> startTime task \<noteq> None
      then (case scheduleFixedTask sch clk k task of
              Inl e \<Rightarrow> Inl e
            | Inr (t, k') \<Rightarrow> Inr (Some t, availableSlots, k'))
      else if preferredTimeRange task \<noteq> None
      then (let (r, slots') = scheduleTaskWithPreference task availableSlots
            in Inr (r, slots', k))
      else (let (r, slots') = scheduleFlexibleTask task availableSlots
            in Inr (r, slots', k)))"

section \<open>The orchestrator\<close>

text \<open>
  The \<open>for ... of\<close> loop of \<open>autoSchedule\<close>: an exception thrown by \<open>scheduleTask\<close> leaves the
  loop and the method (there is no \<open>try\<close>), so the tasks collected so far are lost.
\<close>

fun scheduleLoop ::
  "TaskScheduler \<Rightarrow> clock \<Rightarrow> Task list \<Rightarrow> TimeSlot list \<Rightarrow> nat \<Rightarrow> Task list
     \<Rightarrow> error + Task list" where
  "scheduleLoop sch clk [] availableSlots k scheduledTasks = Inr scheduledTasks"
| "scheduleLoop sch clk (task # rest) availableSlots k scheduledTasks =
     (case scheduleTask sch clk k task availableSlots of
        Inl e \<Rightarrow> Inl e
      | Inr (scheduledTask, slots', k') \<Rightarrow>
          scheduleLoop sch clk rest slots' k'
            (case scheduledTask of
               Some t \<Rightarrow> scheduledTasks @ [t]
             | None \<Rightarrow> scheduledTasks))"

text \<open>
  \<open>autoSchedule\<close> returns the heap after the run (the sort has happened, whether or not
  the loop throws) and either the error or the list of placed tasks.
\<close>

definition autoSchedule ::
  "TaskScheduler \<Rightarrow> clock \<Rightarrow> nat \<Rightarrow> heap \<Rightarrow> heap \<times> (error + Task list)" where
  "autoSchedule sch clk k h =
     (let (h', sortedTasks) = prioritizeTasks sch h;
          availableSlots = generateTimeSlots sch
      in (h', scheduleLoop sch clk (h' sortedTasks) availableSlots k []))"

section \<open>Auxiliary definitions for stating the properties\<close>

text \<open>
  The \<open>i\<close>-th slot of a grid that starts at \<open>ws\<close>, and the number of slots of the grid
  between \<open>ws\<close> and \<open>we\<close>. \<open>generateLoop\<close> is shown below to produce exactly these.
\<close>

definition gridSlot :: "int \<Rightarrow> nat \<Rightarrow> TimeSlot" where
  "gridSlot ws i =
     \<lparr>slot_start = ws + int i * 1800000, slot_end = ws + int i * 1800000 + 1800000,
      available = True\<rparr>"

definition gridCount :: "int \<Rightarrow> int \<Rightarrow> nat" where
  "gridCount ws we = nat (- ((ws - we) div 1800000))"

text \<open>
  A task placed into a slot: the slot's start, and the end \<open>duration\<close> minutes later.
\<close>

definition placeInSlot :: "Task \<Rightarrow> TimeSlot \<Rightarrow> Task" where
  "placeInSlot task slot =
     task\<lparr>startTime := Some (slot_start slot),
          endTime := Some (slot_start slot + duration task * 60000)\<rparr>"

text \<open>
  The candidates of the two slot-based placements at position \<open>i\<close> of the slot list: the
  slot is available, its span (in milliseconds) is at least the duration, and for
  preferred-window placement it lies within the window.
\<close>

definition preferredCandidate :: "Task \<Rightarrow> TimeRange \<Rightarrow> TimeSlot list \<Rightarrow> nat \<Rightarrow> bool" where
  "preferredCandidate task r slots i =
     (i < length slots \<and> available (slots ! i)
      \<and> range_start r \<le> slot_start (slots ! i) \<and> slot_end (slots ! i) \<le> range_end r
      \<and> duration task * 60000 \<le> slot_end (slots ! i) - slot_start (slots ! i))"

definition flexibleCandidate :: "Task \<Rightarrow> TimeSlot list \<Rightarrow> nat \<Rightarrow> bool" where
  "flexibleCandidate task slots i =
     (i < length slots \<and> available (slots ! i)
      \<and> duration task * 60000 \<le> slot_end (slots ! i) - slot_start (slots ! i))"

text \<open>
  A task takes a slot-based placement unless it is Fixed with a start time (the dispatch
  of \<open>scheduleTask\<close>).
\<close>

definition slotBased :: "Task \<Rightarrow> bool" where
  "slotBased task = (\<not> (type task = FIXED \<and> startTime task \<noteq> None))"

text \<open>
  The loop of \<open>autoSchedule\<close> with every placed task paired with the input task it was
  computed from; \<open>scheduleLoop\<close> is shown below to return the second components.
\<close>

fun traceLoop ::
  "TaskScheduler \<Rightarrow> clock \<Rightarrow> Task list \<Rightarrow> TimeSlot list \<Rightarrow> nat \<Rightarrow> (Task \<times> Task) list
     \<Rightarrow> error + (Task \<times> Task) list" where
  "traceLoop sch clk [] availableSlots k tr = Inr tr"
| "traceLoop sch clk (task # rest) availableSlots k tr =
     (case scheduleTask sch clk k task availableSlots of
        Inl e \<Rightarrow> Inl e
      | Inr (scheduledTask, slots', k') \<Rightarrow>
          traceLoop sch clk rest slots' k'
            (case scheduledTask of
               Some t \<Rightarrow> tr @ [(task, t)]
             | None \<Rightarrow> tr))"

definition autoScheduleTrace ::
  "TaskScheduler \<Rightarrow> clock \<Rightarrow> nat \<Rightarrow> heap \<Rightarrow> error + (Task \<times> Task) list" where
  "autoScheduleTrace sch clk k h =
     traceLoop sch clk (sortBy compareTasks (h (tasks sch))) (generateTimeSlots sch) k []"

text \<open>A pair of the trace: the second task is what \<open>scheduleTask\<close> returned for the first.\<close>

definition placedBy :: "TaskScheduler \<Rightarrow> clock \<Rightarrow> Task \<times> Task \<Rightarrow> bool" where
  "placedBy sch clk p =
     (\<exists>slots slots' k k'. scheduleTask sch clk k (fst p) slots = Inr (Some (snd p), slots', k'))"

text \<open>
  The invariant of a run: the slot list keeps the boundaries of the grid; every task placed
  by a slot-based placement sits at the start of a slot that is no longer available and is
  at most one slot long; and the placed tasks are pairwise disjoint.
\<close>

definition gridShaped :: "int \<Rightarrow> TimeSlot list \<Rightarrow> bool" where
  "gridShaped ws slots =
     (\<forall>i<length slots. slot_start (slots ! i) = ws + int i * 1800000
                      \<and> slot_end (slots ! i) = ws + int i * 1800000 + 1800000)"

definition occupies :: "int \<Rightarrow> TimeSlot list \<Rightarrow> Task \<times> Task \<Rightarrow> bool" where
  "occupies ws slots p =
     (\<exists>i<length slots. \<not> available (slots ! i)
        \<and> startTime (snd p) = Some (ws + int i * 1800000)
        \<and> endTime (snd p) = Some (ws + int i * 1800000 + duration (fst p) * 60000)
        \<and> duration (fst p) * 60000 \<le> 1800000)"

definition disjointPlaced :: "Task \<Rightarrow> Task \<Rightarrow> bool" where
  "disjointPlaced a b =
     (\<exists>s1 e1 s2 e2. startTime a = Some s1 \<and> endTime a = Some e1
        \<and> startTime b = Some s2 \<and> endTime b = Some e2
        \<and> s1 \<noteq> s2 \<and> {s1 ..< e1} \<inter> {s2 ..< e2} = {})"

definition noDoubleBooking :: "(Task \<times> Task) list \<Rightarrow> bool" where
  "noDoubleBooking tr =
     (\<forall>i j. i < j \<and> j < length tr \<and> slotBased (fst (tr ! i)) \<and> slotBased (fst (tr ! j)) \<longrightarrow>
        disjointPlaced (snd (tr ! i)) (snd (tr ! j)))"

definition runInvariant :: "int \<Rightarrow> TimeSlot list \<Rightarrow> (Task \<times> Task) list \<Rightarrow> bool" where
  "runInvariant ws slots tr =
     (gridShaped ws slots
      \<and> (\<forall>p \<in> set tr. slotBased (fst p) \<longrightarrow> occupies ws slots p)
      \<and> noDoubleBooking tr)"

subsection \<open>Example inputs\<close>

text \<open>
  A scheduler whose workday is 08:00 to 20:00 UTC on 1 January 1970, a task with the given
  fields, a heap holding the caller's array at reference 0, and a clock that reads 12:00.
\<close>

definition exampleScheduler :: TaskScheduler where
  "exampleScheduler = \<lparr>tasks = 0, workdayStart = 28800000, workdayEnd = 72000000\<rparr>"

definition exampleTask ::
  "string \<Rightarrow> TaskType \<Rightarrow> TaskPriority \<Rightarrow> int \<Rightarrow> int option \<Rightarrow> TimeRange option \<Rightarrow> Task" where
  "exampleTask i ty p d st r =
     \<lparr>task_id = i, name = ''task'', type = ty, priority = p, duration = d,
      startTime = st, endTime = None, preferredTimeRange = r, frequency = None,
      createdAt = 0, updatedAt = 0\<rparr>"

definition exampleHeap :: "Task list \<Rightarrow> heap" where
  "exampleHeap ts = (\<lambda>_. [])(0 := ts)"

definition noon :: clock where
  "noon = (\<lambda>_. 43200000)"

text \<open>A scheduler whose window of 45 minutes is not a multiple of the slot length.\<close>

definition oddScheduler :: TaskScheduler where
  "oddScheduler = \<lparr>tasks = 0, workdayStart = 0, workdayEnd = 2700000\<rparr>"

text \<open>A Routine task of the given duration that prefers 10:00 to 11:00.\<close>

definition windowTask :: "int \<Rightarrow> Task" where
  "windowTask d = exampleTask ''w'' ROUTINE MEDIUM d None
                    (Some \<lparr>range_start = 36000000, range_end = 39600000\<rparr>)"

section \<open>Ranking and sorting\<close>

lemma taskRank_by_type:
  "taskRank t = (case type t of FIXED \<Rightarrow> 4 | ROUTINE \<Rightarrow> 2 | FLEXIBLE \<Rightarrow> 1)"
  by (cases "type t") (simp_all add: taskRank_def orElse_def priorityOrder_def)

lemma insertBy_compareTasks:
  "insertBy compareTasks x ys = insort_key (\<lambda>t. - int (taskRank t)) x ys"
  by (induction ys) (simp_all add: compareTasks_def)

lemma sortBy_compareTasks:
  "sortBy compareTasks xs = sort_key (\<lambda>t. - int (taskRank t)) xs"
  by (induction xs) (simp_all add: sortBy_def sort_key_def insertBy_compareTasks)

text \<open>
  C2. The claim: prioritization puts all Fixed tasks first, then all High-priority tasks,
  then all Routine tasks, then all Flexible tasks. The source's comment states the same
  order. The code looks a task's type up first, every type has an entry in the table, so
  the priority is never consulted: a Flexible task of High priority has rank 1 and is
  sorted behind a Routine task of Low priority (rank 2).
\<close>

theorem prioritizeTasks_high_behind_routine:
  "fst (prioritizeTasks exampleScheduler
          (exampleHeap [exampleTask ''a'' FLEXIBLE HIGH 30 None None,
                        exampleTask ''b'' ROUTINE LOW 30 None None])) 0
   = [exampleTask ''b'' ROUTINE LOW 30 None None, exampleTask ''a'' FLEXIBLE HIGH 30 None None]
   \<and> taskRank (exampleTask ''a'' FLEXIBLE HIGH 30 None None) = 1
   \<and> taskRank (exampleTask ''b'' ROUTINE LOW 30 None None) = 2"
  by code_simp

section \<open>The slot grid\<close>

lemma gridCount_step:
  "cur < we \<Longrightarrow> gridCount cur we = Suc (gridCount (cur + 1800000) we)"
proof -
  assume lt: "cur < we"
  have "(cur + 1800000 - we) div 1800000 = (cur - we) div 1800000 + 1"
    by (simp add: algebra_simps div_add_self1)
  moreover have "(cur - we) div 1800000 < 0"
    using lt by (simp add: div_neg_pos_less0)
  ultimately show ?thesis
    unfolding gridCount_def by (simp add: nat_diff_distrib')
qed

lemma gridCount_done: "\<not> cur < we \<Longrightarrow> gridCount cur we = 0"
  unfolding gridCount_def by (simp add: pos_imp_zdiv_nonneg_iff)

lemma gridSlot_shift: "gridSlot (cur + 1800000) i = gridSlot cur (Suc i)"
  by (simp add: gridSlot_def algebra_simps)

lemma generateLoop_closed:
  "generateLoop slots cur we = slots @ map (gridSlot cur) [0 ..< gridCount cur we]"
proof (induction slots cur we rule: generateLoop.induct)
  case (1 slots currentTime wEnd)
  show ?case
  proof (cases "currentTime < wEnd")
    case True
    have "generateLoop slots currentTime wEnd
          = generateLoop (slots @ [gridSlot currentTime 0]) (currentTime + 1800000) wEnd"
      using True
      by (subst generateLoop.simps) (simp add: addMinutes_def gridSlot_def Let_def)
    also have "\<dots> = (slots @ [gridSlot currentTime 0])
                 @ map (gridSlot (currentTime + 1800000))
                     [0 ..< gridCount (currentTime + 1800000) wEnd]"
      using "1.IH" [OF True refl] by (simp add: addMinutes_def gridSlot_def)
    also have "\<dots> = slots @ map (gridSlot currentTime) [0 ..< gridCount currentTime wEnd]"
      by (simp add: gridCount_step [OF True] gridSlot_shift upt_conv_Cons
            map_Suc_upt [symmetric] del: upt_Suc)
    finally show ?thesis .
  next
    case False
    then show ?thesis
      by (subst generateLoop.simps) (simp add: gridCount_done)
  qed
qed

lemma generateTimeSlots_closed:
  "generateTimeSlots sch
   = map (gridSlot (workdayStart sch)) [0 ..< gridCount (workdayStart sch) (workdayEnd sch)]"
  by (simp add: generateTimeSlots_def generateLoop_closed)

lemma set_generateTimeSlots:
  "slot \<in> set (generateTimeSlots sch) \<Longrightarrow> \<exists>i. slot = gridSlot (workdayStart sch) i"
  by (auto simp: generateTimeSlots_closed)

section \<open>The fit check\<close>

text \<open>
  C4. The claim: a task whose duration is zero or negative never matches a slot of the
  grid. It fails: \<open>canFitTask\<close> only compares the slot's span with the duration, so the
  first slot of the example grid matches a task of duration 0 and one of duration -15,
  and flexible placement puts the task of duration 0 into that slot.
\<close>

theorem canFitTask_zero_duration_matches:
  "\<lparr>slot_start = 28800000, slot_end = 30600000, available = True\<rparr>
     \<in> set (generateTimeSlots exampleScheduler)
   \<and> canFitTask \<lparr>slot_start = 28800000, slot_end = 30600000, available = True\<rparr>
        (exampleTask ''z'' FLEXIBLE LOW 0 None None)
   \<and> canFitTask \<lparr>slot_start = 28800000, slot_end = 30600000, available = True\<rparr>
        (exampleTask ''n'' FLEXIBLE LOW (- 15) None None)
   \<and> fst (scheduleFlexibleTask (exampleTask ''z'' FLEXIBLE LOW 0 None None)
            (generateTimeSlots exampleScheduler))
     = Some ((exampleTask ''z'' FLEXIBLE LOW 0 None None)
              \<lparr>startTime := Some 28800000, endTime := Some 28800000\<rparr>)"
  by code_simp

text \<open>
  C4, as amended. For every task and every slot of the generated grid, the fit check
  reports a match exactly when the duration is at most 30 minutes; a zero or negative
  duration therefore matches every slot of the grid.
\<close>

theorem canFitTask_grid:
  "slot \<in> set (generateTimeSlots sch) \<Longrightarrow> canFitTask slot task = (duration task \<le> 30)"
proof -
  assume "slot \<in> set (generateTimeSlots sch)"
  then obtain i where "slot = gridSlot (workdayStart sch) i"
    using set_generateTimeSlots by blast
  then show ?thesis
    by (simp add: canFitTask_def gridSlot_def)
qed

theorem canFitTask_grid_witness:
  "\<lparr>slot_start = 28800000, slot_end = 30600000, available = True\<rparr>
     \<in> set (generateTimeSlots exampleScheduler)
   \<and> canFitTask \<lparr>slot_start = 28800000, slot_end = 30600000, available = True\<rparr>
        (exampleTask ''z'' FLEXIBLE LOW 0 None None)
      = (duration (exampleTask ''z'' FLEXIBLE LOW 0 None None) \<le> 30)"
proof -
  have m: "\<lparr>slot_start = 28800000, slot_end = 30600000, available = True\<rparr>
             \<in> set (generateTimeSlots exampleScheduler)"
    by code_simp
  show ?thesis
    using m canFitTask_grid [OF m, of "exampleTask ''z'' FLEXIBLE LOW 0 None None"] by simp
qed

section \<open>Fixed-time placement\<close>

text \<open>
  C1. The claim: a Fixed task whose start lies inside the workday is returned with
  \<open>endTime = startTime + duration\<close>. \<open>scheduleFixedTask\<close> calls \<open>calculateEndTime(task)\<close>
  without the start time, so the end is counted from the clock. With the workday 08:00 to
  20:00, a Fixed task of 30 minutes at 09:00 (32400000) and the clock at 12:00, the task
  is returned with \<open>endTime\<close> 12:30 (45000000), not 09:30 (34200000).
\<close>

theorem scheduleFixedTask_endTime_from_clock:
  "snd (autoSchedule exampleScheduler noon 0
          (exampleHeap [exampleTask ''a'' FIXED MEDIUM 30 (Some 32400000) None]))
   = Inr [(exampleTask ''a'' FIXED MEDIUM 30 (Some 32400000) None)\<lparr>endTime := Some 45000000\<rparr>]
   \<and> isWithinWorkday exampleScheduler 32400000
   \<and> addMinutes 32400000 30 = 34200000"
  by code_simp

section \<open>Properties of the slot grid\<close>

lemma length_generateTimeSlots:
  "length (generateTimeSlots sch) = gridCount (workdayStart sch) (workdayEnd sch)"
  by (simp add: generateTimeSlots_closed)

lemma nth_generateTimeSlots:
  "i < length (generateTimeSlots sch) \<Longrightarrow> generateTimeSlots sch ! i = gridSlot (workdayStart sch) i"
  by (simp add: generateTimeSlots_closed)

lemma gridCount_pos: "ws < we \<Longrightarrow> 0 < gridCount ws we"
  by (simp add: gridCount_step)

lemma gridCount_ceiling:
  "ws \<le> we \<Longrightarrow> int (gridCount ws we) = \<lceil>real_of_int (we - ws) / real_of_int (30 * 60000)\<rceil>"
proof -
  assume le: "ws \<le> we"
  have "(ws - we) div 1800000 \<le> 0"
    using le by (simp add: div_nonpos_pos_le0)
  then have "int (gridCount ws we) = - ((ws - we) div 1800000)"
    by (simp add: gridCount_def)
  also have "\<dots> = - (- (we - ws) div 1800000)"
    by simp
  also have "\<dots> = \<lceil>real_of_int (we - ws) / real_of_int 1800000\<rceil>"
    by (simp only: ceiling_divide_eq_div)
  finally show ?thesis by simp
qed

lemma gridCount_covers:
  "ws < we \<Longrightarrow> we \<le> ws + int (gridCount ws we) * 1800000"
proof -
  assume lt: "ws < we"
  have neg: "(ws - we) div 1800000 \<le> 0"
    using lt by (simp add: div_nonpos_pos_le0)
  have "ws - we = 1800000 * ((ws - we) div 1800000) + (ws - we) mod 1800000"
    by simp
  moreover have "0 \<le> (ws - we) mod 1800000" by simp
  ultimately have "1800000 * ((ws - we) div 1800000) \<le> ws - we" by linarith
  then show ?thesis using neg by (simp add: gridCount_def)
qed

lemma gridCount_exact:
  "ws < we \<Longrightarrow> (1800000 dvd (we - ws)) = (ws + int (gridCount ws we) * 1800000 = we)"
proof -
  assume lt: "ws < we"
  have neg: "(ws - we) div 1800000 \<le> 0"
    using lt by (simp add: div_nonpos_pos_le0)
  have n: "int (gridCount ws we) = - ((ws - we) div 1800000)"
    using neg by (simp add: gridCount_def)
  have d: "ws - we = 1800000 * ((ws - we) div 1800000) + (ws - we) mod 1800000"
    by simp
  have "(1800000 dvd (we - ws)) = (1800000 dvd (ws - we))"
    by (simp add: dvd_diff_commute)
  also have "\<dots> = ((ws - we) mod 1800000 = 0)"
    by (simp add: dvd_eq_mod_eq_0)
  also have "\<dots> = (ws + int (gridCount ws we) * 1800000 = we)"
    using d n by linarith
  finally show ?thesis .
qed

text \<open>
  C6. Slot generation yields contiguous, non-overlapping 30-minute slots: when the window is
  not empty the first slot starts at \<open>workdayStart\<close>; each slot starts where the previous
  one ends; an earlier slot ends no later than a later one starts; every slot is available
  and 30 minutes long; the count is \<open>(workdayEnd - workdayStart) / 30min\<close> rounded up; the
  last slot ends at \<open>workdayEnd\<close> when the window is a multiple of 30 minutes and extends
  past it otherwise; and the slots depend on the two bounds only.
\<close>

theorem generateTimeSlots_tiling:
  "(workdayStart sch < workdayEnd sch \<longrightarrow>
      generateTimeSlots sch \<noteq> [] \<and> slot_start (generateTimeSlots sch ! 0) = workdayStart sch)
   \<and> (\<forall>i. Suc i < length (generateTimeSlots sch) \<longrightarrow>
          slot_start (generateTimeSlots sch ! Suc i) = slot_end (generateTimeSlots sch ! i))
   \<and> (\<forall>i j. i < j \<and> j < length (generateTimeSlots sch) \<longrightarrow>
          slot_end (generateTimeSlots sch ! i) \<le> slot_start (generateTimeSlots sch ! j))
   \<and> (\<forall>s \<in> set (generateTimeSlots sch).
          available s \<and> slot_end s = addMinutes (slot_start s) 30)
   \<and> (workdayStart sch \<le> workdayEnd sch \<longrightarrow>
        int (length (generateTimeSlots sch))
        = \<lceil>real_of_int (workdayEnd sch - workdayStart sch) / real_of_int (30 * 60000)\<rceil>)
   \<and> (workdayStart sch < workdayEnd sch \<longrightarrow>
        (if 1800000 dvd (workdayEnd sch - workdayStart sch)
         then slot_end (last (generateTimeSlots sch)) = workdayEnd sch
         else workdayEnd sch < slot_end (last (generateTimeSlots sch))))
   \<and> (\<forall>sch'. workdayStart sch' = workdayStart sch \<and> workdayEnd sch' = workdayEnd sch \<longrightarrow>
          generateTimeSlots sch' = generateTimeSlots sch)"
proof -
  let ?g = "generateTimeSlots sch"
  let ?ws = "workdayStart sch"
  let ?we = "workdayEnd sch"
  let ?n = "gridCount ?ws ?we"
  have len: "length ?g = ?n" by (rule length_generateTimeSlots)
  have nth: "\<And>i. i < ?n \<Longrightarrow> ?g ! i = gridSlot ?ws i"
    using nth_generateTimeSlots len by simp
  have c1: "?ws < ?we \<longrightarrow> ?g \<noteq> [] \<and> slot_start (?g ! 0) = ?ws"
  proof
    assume lt: "?ws < ?we"
    then have pos: "0 < ?n" by (rule gridCount_pos)
    then have "?g \<noteq> []" using len by auto
    moreover have "slot_start (?g ! 0) = ?ws"
      using nth [OF pos] by (simp add: gridSlot_def)
    ultimately show "?g \<noteq> [] \<and> slot_start (?g ! 0) = ?ws" by simp
  qed
  have c2: "\<forall>i. Suc i < length ?g \<longrightarrow> slot_start (?g ! Suc i) = slot_end (?g ! i)"
    using nth len by (simp add: gridSlot_def algebra_simps)
  have c3: "\<forall>i j. i < j \<and> j < length ?g \<longrightarrow> slot_end (?g ! i) \<le> slot_start (?g ! j)"
  proof (intro allI impI)
    fix i j :: nat
    assume a: "i < j \<and> j < length ?g"
    then have "int i + 1 \<le> int j" by simp
    then have "(int i + 1) * 1800000 \<le> int j * 1800000" by simp
    then show "slot_end (?g ! i) \<le> slot_start (?g ! j)"
      using a nth [of i] nth [of j] len by (simp add: gridSlot_def algebra_simps)
  qed
  have c4: "\<forall>s \<in> set ?g. available s \<and> slot_end s = addMinutes (slot_start s) 30"
    by (auto simp: generateTimeSlots_closed gridSlot_def addMinutes_def)
  have c5: "?ws \<le> ?we \<longrightarrow>
        int (length ?g) = \<lceil>real_of_int (?we - ?ws) / real_of_int (30 * 60000)\<rceil>"
    using gridCount_ceiling len by simp
  have c6: "?ws < ?we \<longrightarrow>
        (if 1800000 dvd (?we - ?ws) then slot_end (last ?g) = ?we else ?we < slot_end (last ?g))"
  proof
    assume lt: "?ws < ?we"
    then have pos: "0 < ?n" by (rule gridCount_pos)
    then have ne: "?g \<noteq> []" using len by auto
    have "last ?g = ?g ! (?n - 1)"
      using ne len by (simp add: last_conv_nth)
    also have "\<dots> = gridSlot ?ws (?n - 1)"
      using nth [of "?n - 1"] pos by simp
    finally have "slot_end (last ?g) = ?ws + int (?n - 1) * 1800000 + 1800000"
      by (simp add: gridSlot_def)
    also have "\<dots> = ?ws + int ?n * 1800000"
      using pos by (simp add: of_nat_diff algebra_simps)
    finally have e: "slot_end (last ?g) = ?ws + int ?n * 1800000" .
    show "if 1800000 dvd (?we - ?ws) then slot_end (last ?g) = ?we else ?we < slot_end (last ?g)"
      using e gridCount_covers [OF lt] gridCount_exact [OF lt] by auto
  qed
  have c7: "\<forall>sch'. workdayStart sch' = ?ws \<and> workdayEnd sch' = ?we \<longrightarrow>
          generateTimeSlots sch' = ?g"
    by (simp add: generateTimeSlots_def)
  show ?thesis
    using c1 c2 c3 c4 c5 c6 c7 by blast
qed

theorem generateTimeSlots_tiling_witness:
  "workdayStart exampleScheduler < workdayEnd exampleScheduler
   \<and> generateTimeSlots exampleScheduler \<noteq> []
   \<and> slot_start (generateTimeSlots exampleScheduler ! 0) = 28800000
   \<and> length (generateTimeSlots exampleScheduler) = 24
   \<and> slot_start (generateTimeSlots exampleScheduler ! 1)
       = slot_end (generateTimeSlots exampleScheduler ! 0)
   \<and> slot_end (last (generateTimeSlots exampleScheduler)) = 72000000
   \<and> workdayStart oddScheduler < workdayEnd oddScheduler
   \<and> \<not> 1800000 dvd (workdayEnd oddScheduler - workdayStart oddScheduler)
   \<and> length (generateTimeSlots oddScheduler) = 2
   \<and> workdayEnd oddScheduler < slot_end (last (generateTimeSlots oddScheduler))"
proof -
  have a: "workdayStart exampleScheduler < workdayEnd exampleScheduler"
    by (simp add: exampleScheduler_def)
  have b: "workdayStart oddScheduler < workdayEnd oddScheduler"
    by (simp add: oddScheduler_def)
  have d: "1800000 dvd (workdayEnd exampleScheduler - workdayStart exampleScheduler)"
    by (simp add: exampleScheduler_def)
  have nd: "\<not> 1800000 dvd (workdayEnd oddScheduler - workdayStart oddScheduler)"
    by (simp add: oddScheduler_def)
  note ex = generateTimeSlots_tiling [of exampleScheduler]
  note od = generateTimeSlots_tiling [of oddScheduler]
  have 1: "generateTimeSlots exampleScheduler \<noteq> []
           \<and> slot_start (generateTimeSlots exampleScheduler ! 0) = 28800000"
    using ex [THEN conjunct1] a by (simp add: exampleScheduler_def)
  have "int (length (generateTimeSlots exampleScheduler))
        = \<lceil>real_of_int (workdayEnd exampleScheduler - workdayStart exampleScheduler)
            / real_of_int (30 * 60000)\<rceil>"
    using ex [THEN conjunct2, THEN conjunct2, THEN conjunct2, THEN conjunct2, THEN conjunct1] a
    by simp
  also have "\<dots> = 24"
    by (simp add: exampleScheduler_def)
  finally have n: "length (generateTimeSlots exampleScheduler) = 24" by simp
  have "Suc 0 < length (generateTimeSlots exampleScheduler)" using n by simp
  then have 2: "slot_start (generateTimeSlots exampleScheduler ! 1)
       = slot_end (generateTimeSlots exampleScheduler ! 0)"
    using ex [THEN conjunct2, THEN conjunct1] by simp
  have 3: "slot_end (last (generateTimeSlots exampleScheduler)) = 72000000"
    using ex [THEN conjunct2, THEN conjunct2, THEN conjunct2, THEN conjunct2, THEN conjunct2,
              THEN conjunct1] a d
    by (simp add: exampleScheduler_def)
  have "int (length (generateTimeSlots oddScheduler))
        = \<lceil>real_of_int (workdayEnd oddScheduler - workdayStart oddScheduler)
            / real_of_int (30 * 60000)\<rceil>"
    using od [THEN conjunct2, THEN conjunct2, THEN conjunct2, THEN conjunct2, THEN conjunct1] b
    by simp
  also have "\<dots> = 2"
    by (simp add: oddScheduler_def ceiling_eq_iff)
  finally have 4: "length (generateTimeSlots oddScheduler) = 2" by simp
  have 5: "workdayEnd oddScheduler < slot_end (last (generateTimeSlots oddScheduler))"
    using od [THEN conjunct2, THEN conjunct2, THEN conjunct2, THEN conjunct2, THEN conjunct2,
              THEN conjunct1] b nd
    by simp
  show ?thesis using a b nd n 1 2 3 4 5 by blast
qed

section \<open>The hard failure\<close>

lemma set_sortBy_compareTasks: "set (sortBy compareTasks xs) = set xs"
  by (simp add: sortBy_compareTasks)

lemma mset_sortBy_compareTasks: "mset (sortBy compareTasks xs) = mset xs"
  by (simp add: sortBy_compareTasks)

lemma scheduleTask_error:
  "scheduleTask sch clk k task slots = Inl e \<Longrightarrow> e = Error ''Fixed task outside of workday''"
  by (auto simp: scheduleTask_def scheduleFixedTask_def Let_def
           split: if_splits sum.splits prod.splits)

lemma scheduleTask_fixed_outside:
  "type task = FIXED \<Longrightarrow> startTime task = Some s \<Longrightarrow> \<not> isWithinWorkday sch s \<Longrightarrow>
   scheduleTask sch clk k task slots = Inl (Error ''Fixed task outside of workday'')"
  by (simp add: scheduleTask_def scheduleFixedTask_def)

lemma scheduleLoop_fixed_outside:
  "t \<in> set ts \<Longrightarrow> type t = FIXED \<Longrightarrow> startTime t = Some s \<Longrightarrow> \<not> isWithinWorkday sch s \<Longrightarrow>
   scheduleLoop sch clk ts slots k acc = Inl (Error ''Fixed task outside of workday'')"
proof (induction ts arbitrary: slots k acc)
  case Nil
  then show ?case by simp
next
  case (Cons a ts)
  show ?case
  proof (cases "scheduleTask sch clk k a slots")
    case (Inl e)
    then show ?thesis using scheduleTask_error [OF Inl] by simp
  next
    case (Inr r)
    obtain res slots' k' where r: "r = (res, slots', k')" by (cases r) auto
    have "a \<noteq> t"
      using Inr scheduleTask_fixed_outside [OF Cons.prems(2,3,4), of clk k slots] by auto
    then have "t \<in> set ts" using Cons.prems(1) by auto
    then show ?thesis
      using Inr r Cons.IH [OF _ Cons.prems(2,3,4)] by simp
  qed
qed

lemma scheduleFixedTask_result:
  "startTime task = Some s \<Longrightarrow>
   scheduleFixedTask sch clk k task =
     (if workdayStart sch \<le> s \<and> s \<le> workdayEnd sch
      then Inr (task\<lparr>endTime := Some (addMinutes (clk k) (duration task))\<rparr>, Suc k)
      else Inl (Error ''Fixed task outside of workday''))"
  by (simp add: scheduleFixedTask_def isWithinWorkday_def calculateEndTime_def)

text \<open>
  C3. A run that contains a Fixed task whose start time lies outside the inclusive window
  \<open>[workdayStart, workdayEnd]\<close> ends in the error "Fixed task outside of workday": the
  result is the error, with no list of placed tasks. For a task with a start time,
  \<open>scheduleFixedTask\<close> raises the error exactly when the start is outside the inclusive
  window.
\<close>

theorem autoSchedule_fixed_outside_aborts:
  "(t \<in> set (h (tasks sch)) \<and> type t = FIXED \<and> startTime t = Some s
      \<and> (s < workdayStart sch \<or> workdayEnd sch < s)
    \<longrightarrow> snd (autoSchedule sch clk k h) = Inl (Error ''Fixed task outside of workday''))
   \<and> (startTime t = Some s \<longrightarrow>
        (scheduleFixedTask sch clk k t = Inl (Error ''Fixed task outside of workday''))
        = (\<not> (workdayStart sch \<le> s \<and> s \<le> workdayEnd sch)))"
proof (intro conjI impI)
  assume a: "t \<in> set (h (tasks sch)) \<and> type t = FIXED \<and> startTime t = Some s
      \<and> (s < workdayStart sch \<or> workdayEnd sch < s)"
  then have out: "\<not> isWithinWorkday sch s"
    by (auto simp: isWithinWorkday_def)
  have mem: "t \<in> set (sortBy compareTasks (h (tasks sch)))"
    using a by (simp add: set_sortBy_compareTasks)
  show "snd (autoSchedule sch clk k h) = Inl (Error ''Fixed task outside of workday'')"
    using scheduleLoop_fixed_outside [OF mem _ _ out] a
    by (simp add: autoSchedule_def prioritizeTasks_def)
next
  assume "startTime t = Some s"
  then show "(scheduleFixedTask sch clk k t = Inl (Error ''Fixed task outside of workday''))
        = (\<not> (workdayStart sch \<le> s \<and> s \<le> workdayEnd sch))"
    by (simp add: scheduleFixedTask_result)
qed

theorem autoSchedule_fixed_outside_aborts_witness:
  "snd (autoSchedule exampleScheduler noon 0
          (exampleHeap [exampleTask ''a'' FIXED MEDIUM 30 (Some 32400000) None,
                        exampleTask ''b'' FIXED MEDIUM 30 (Some 27000000) None]))
     = Inl (Error ''Fixed task outside of workday'')
   \<and> scheduleFixedTask exampleScheduler noon 0
        (exampleTask ''c'' FIXED MEDIUM 30 (Some 72000000) None)
     \<noteq> Inl (Error ''Fixed task outside of workday'')
   \<and> scheduleFixedTask exampleScheduler noon 0
        (exampleTask ''d'' FIXED MEDIUM 30 (Some 72000001) None)
     = Inl (Error ''Fixed task outside of workday'')"
proof -
  let ?b = "exampleTask ''b'' FIXED MEDIUM 30 (Some 27000000) None"
  let ?h = "exampleHeap [exampleTask ''a'' FIXED MEDIUM 30 (Some 32400000) None, ?b]"
  have "?b \<in> set (?h (tasks exampleScheduler)) \<and> type ?b = FIXED
        \<and> startTime ?b = Some 27000000
        \<and> (27000000 < workdayStart exampleScheduler \<or> workdayEnd exampleScheduler < 27000000)"
    by (simp add: exampleHeap_def exampleScheduler_def exampleTask_def)
  then have 1: "snd (autoSchedule exampleScheduler noon 0 ?h)
     = Inl (Error ''Fixed task outside of workday'')"
    using autoSchedule_fixed_outside_aborts [of ?b ?h exampleScheduler 27000000 noon 0] by blast
  have 2: "scheduleFixedTask exampleScheduler noon 0
        (exampleTask ''c'' FIXED MEDIUM 30 (Some 72000000) None)
     \<noteq> Inl (Error ''Fixed task outside of workday'')"
    using autoSchedule_fixed_outside_aborts
            [of "exampleTask ''c'' FIXED MEDIUM 30 (Some 72000000) None" ?h exampleScheduler
                72000000 noon 0]
    by (simp add: exampleScheduler_def exampleTask_def)
  have 3: "scheduleFixedTask exampleScheduler noon 0
        (exampleTask ''d'' FIXED MEDIUM 30 (Some 72000001) None)
     = Inl (Error ''Fixed task outside of workday'')"
    using autoSchedule_fixed_outside_aborts
            [of "exampleTask ''d'' FIXED MEDIUM 30 (Some 72000001) None" ?h exampleScheduler
                72000001 noon 0]
    by (simp add: exampleScheduler_def exampleTask_def)
  show ?thesis using 1 2 3 by blast
qed

section \<open>Fixed tasks without a start time\<close>

lemma scheduleTask_slot_routes:
  "\<not> (type task = FIXED \<and> startTime task \<noteq> None) \<Longrightarrow>
   scheduleTask sch clk k task slots =
     (if preferredTimeRange task \<noteq> None
      then Inr (fst (scheduleTaskWithPreference task slots),
                snd (scheduleTaskWithPreference task slots), k)
      else Inr (fst (scheduleFlexibleTask task slots),
                snd (scheduleFlexibleTask task slots), k))"
  by (auto simp: scheduleTask_def Let_def split: prod.splits)

lemma scheduleTask_no_error:
  "type task = FIXED \<longrightarrow> (case startTime task of None \<Rightarrow> True | Some s \<Rightarrow> isWithinWorkday sch s) \<Longrightarrow>
   \<exists>r. scheduleTask sch clk k task slots = Inr r"
  by (auto simp: scheduleTask_def scheduleFixedTask_def Let_def
           split: prod.splits option.splits)

lemma scheduleLoop_no_error:
  "\<forall>t \<in> set ts. type t = FIXED \<longrightarrow>
      (case startTime t of None \<Rightarrow> True | Some s \<Rightarrow> isWithinWorkday sch s) \<Longrightarrow>
   \<exists>out. scheduleLoop sch clk ts slots k acc = Inr out"
proof (induction ts arbitrary: slots k acc)
  case Nil
  then show ?case by simp
next
  case (Cons a ts)
  have "type a = FIXED \<longrightarrow>
      (case startTime a of None \<Rightarrow> True | Some s \<Rightarrow> isWithinWorkday sch s)"
    using Cons.prems by simp
  then obtain res slots' k' where r: "scheduleTask sch clk k a slots = Inr (res, slots', k')"
    using scheduleTask_no_error [of a sch clk k slots] by (metis prod_cases3)
  have rest: "\<forall>t \<in> set ts. type t = FIXED \<longrightarrow>
      (case startTime t of None \<Rightarrow> True | Some s \<Rightarrow> isWithinWorkday sch s)"
    using Cons.prems by simp
  show ?case
    using r Cons.IH [OF rest] by simp
qed

text \<open>
  C10. A Fixed task without a start time is dispatched like a task that is not Fixed: to
  preferred-window placement when it has a preferred time range, to flexible placement
  otherwise; neither raises. A run in which no Fixed task has a start time returns a list.
\<close>

theorem scheduleTask_fixed_without_startTime:
  "(type task = FIXED \<and> startTime task = None \<longrightarrow>
      scheduleTask sch clk k task slots =
        (if preferredTimeRange task \<noteq> None
         then Inr (fst (scheduleTaskWithPreference task slots),
                   snd (scheduleTaskWithPreference task slots), k)
         else Inr (fst (scheduleFlexibleTask task slots),
                   snd (scheduleFlexibleTask task slots), k)))
   \<and> ((\<forall>t \<in> set (h (tasks sch)). type t = FIXED \<longrightarrow> startTime t = None) \<longrightarrow>
        (\<exists>out. snd (autoSchedule sch clk k h) = Inr out))"
proof (intro conjI impI)
  assume "type task = FIXED \<and> startTime task = None"
  then have "\<not> (type task = FIXED \<and> startTime task \<noteq> None)" by simp
  then show "scheduleTask sch clk k task slots =
        (if preferredTimeRange task \<noteq> None
         then Inr (fst (scheduleTaskWithPreference task slots),
                   snd (scheduleTaskWithPreference task slots), k)
         else Inr (fst (scheduleFlexibleTask task slots),
                   snd (scheduleFlexibleTask task slots), k))"
    by (rule scheduleTask_slot_routes)
next
  assume a: "\<forall>t \<in> set (h (tasks sch)). type t = FIXED \<longrightarrow> startTime t = None"
  have "\<forall>t \<in> set (sortBy compareTasks (h (tasks sch))). type t = FIXED \<longrightarrow>
      (case startTime t of None \<Rightarrow> True | Some s \<Rightarrow> isWithinWorkday sch s)"
    using a by (simp add: set_sortBy_compareTasks)
  then show "\<exists>out. snd (autoSchedule sch clk k h) = Inr out"
    using scheduleLoop_no_error by (simp add: autoSchedule_def prioritizeTasks_def)
qed

theorem scheduleTask_fixed_without_startTime_witness:
  "scheduleTask exampleScheduler noon 0 (exampleTask ''a'' FIXED MEDIUM 30 None None)
      (generateTimeSlots exampleScheduler)
   = Inr (Some ((exampleTask ''a'' FIXED MEDIUM 30 None None)
                 \<lparr>startTime := Some 28800000, endTime := Some 30600000\<rparr>),
          markUnavailable (generateTimeSlots exampleScheduler) 0, 0)
   \<and> scheduleTask exampleScheduler noon 0
        (exampleTask ''b'' FIXED MEDIUM 45 None
           (Some \<lparr>range_start = 36000000, range_end = 39600000\<rparr>))
        (generateTimeSlots exampleScheduler)
     = Inr (None, generateTimeSlots exampleScheduler, 0)
   \<and> (\<exists>out. snd (autoSchedule exampleScheduler noon 0
                   (exampleHeap [exampleTask ''a'' FIXED MEDIUM 30 None None])) = Inr out)"
proof -
  let ?a = "exampleTask ''a'' FIXED MEDIUM 30 None None"
  let ?b = "exampleTask ''b'' FIXED MEDIUM 45 None
              (Some \<lparr>range_start = 36000000, range_end = 39600000\<rparr>)"
  let ?g = "generateTimeSlots exampleScheduler"
  have fa: "scheduleFlexibleTask ?a ?g
            = (Some (?a\<lparr>startTime := Some 28800000, endTime := Some 30600000\<rparr>),
               markUnavailable ?g 0)"
    by code_simp
  have pb: "scheduleTaskWithPreference ?b ?g = (None, ?g)"
    by code_simp
  have 1: "scheduleTask exampleScheduler noon 0 ?a ?g
           = Inr (Some (?a\<lparr>startTime := Some 28800000, endTime := Some 30600000\<rparr>),
                  markUnavailable ?g 0, 0)"
    using scheduleTask_fixed_without_startTime [of ?a exampleScheduler noon 0 ?g] fa
    by (simp add: exampleTask_def)
  have 2: "scheduleTask exampleScheduler noon 0 ?b ?g = Inr (None, ?g, 0)"
    using scheduleTask_fixed_without_startTime [of ?b exampleScheduler noon 0 ?g] pb
    by (simp add: exampleTask_def)
  have 3: "\<exists>out. snd (autoSchedule exampleScheduler noon 0 (exampleHeap [?a])) = Inr out"
    using scheduleTask_fixed_without_startTime
            [of ?a exampleScheduler noon 0 ?g "exampleHeap [?a]"]
    by (simp add: exampleTask_def exampleHeap_def exampleScheduler_def)
  show ?thesis using 1 2 3 by blast
qed

section \<open>First fit\<close>

lemma canFitTask_iff:
  "canFitTask slot task = (duration task * 60000 \<le> slot_end slot - slot_start slot)"
proof -
  have "canFitTask slot task
        = (real_of_int (duration task) * 60000 \<le> real_of_int (slot_end slot - slot_start slot))"
    by (simp add: canFitTask_def Let_def pos_le_divide_eq)
  also have "\<dots> = (real_of_int (duration task * 60000)
                   \<le> real_of_int (slot_end slot - slot_start slot))"
    by simp
  also have "\<dots> = (duration task * 60000 \<le> slot_end slot - slot_start slot)"
    by (rule of_int_le_iff)
  finally show ?thesis .
qed

lemma find_filter_conj:
  "List.find P (filter Q xs) = List.find (\<lambda>x. Q x \<and> P x) xs"
  by (induction xs) simp_all

lemma find_upt_first:
  "i < n \<Longrightarrow> R i \<Longrightarrow> \<forall>j<i. \<not> R j \<Longrightarrow> List.find R [0 ..< n] = Some i"
  by (simp add: find_Some_iff) (rule exI [of _ i], simp)

lemma find_upt_none:
  "\<forall>i<n. \<not> R i \<Longrightarrow> List.find R [0 ..< n] = None"
  by (simp add: find_None_iff)

lemma filter_first_find:
  "List.find R xs = Some i \<Longrightarrow> filter R xs \<noteq> [] \<and> filter R xs ! 0 = i"
  by (induction xs) (auto split: if_splits)

lemma filter_empty_find:
  "List.find R xs = None \<Longrightarrow> filter R xs = []"
  by (induction xs) (auto split: if_splits)

lemma scheduleTaskWithPreference_find:
  "preferredTimeRange task = Some r \<Longrightarrow>
   scheduleTaskWithPreference task slots =
     (case List.find (preferredCandidate task r slots) [0 ..< length slots] of
        Some i \<Rightarrow> (Some (placeInSlot task (slots ! i)), markUnavailable slots i)
      | None \<Rightarrow> (None, slots))"
proof -
  assume r: "preferredTimeRange task = Some r"
  let ?W = "\<lambda>i. slot_start (slots ! i) \<ge> range_start r \<and> slot_end (slots ! i) \<le> range_end r
                \<and> available (slots ! i)"
  let ?F = "\<lambda>i. canFitTask (slots ! i) task"
  have same: "List.find ?F (filter ?W [0 ..< length slots])
              = List.find (preferredCandidate task r slots) [0 ..< length slots]"
    unfolding find_filter_conj
    by (rule find_cong) (auto simp: preferredCandidate_def canFitTask_iff)
  have empty: "filter ?W [0 ..< length slots] = [] \<Longrightarrow>
               List.find ?F (filter ?W [0 ..< length slots]) = None"
    by simp
  show ?thesis
  proof (cases "filter ?W [0 ..< length slots] = []")
    case True
    then show ?thesis
      using r same empty by (simp add: scheduleTaskWithPreference_def)
  next
    case False
    then show ?thesis
      using r same
      by (simp add: scheduleTaskWithPreference_def Let_def placeInSlot_def addMinutes_def
               split: option.splits)
  qed
qed

lemma scheduleFlexibleTask_find:
  "scheduleFlexibleTask task slots =
     (case List.find (flexibleCandidate task slots) [0 ..< length slots] of
        Some i \<Rightarrow> (Some (placeInSlot task (slots ! i)), markUnavailable slots i)
      | None \<Rightarrow> (None, slots))"
proof -
  let ?A = "\<lambda>i. available (slots ! i) \<and> canFitTask (slots ! i) task"
  have same: "List.find ?A [0 ..< length slots]
              = List.find (flexibleCandidate task slots) [0 ..< length slots]"
    by (rule find_cong) (auto simp: flexibleCandidate_def canFitTask_iff)
  show ?thesis
  proof (cases "List.find ?A [0 ..< length slots]")
    case None
    then show ?thesis
      using same filter_empty_find [OF None]
      by (simp add: scheduleFlexibleTask_def)
  next
    case (Some i)
    then show ?thesis
      using same filter_first_find [OF Some]
      by (simp add: scheduleFlexibleTask_def Let_def placeInSlot_def addMinutes_def)
  qed
qed

lemma scheduleTaskWithPreference_first:
  "preferredTimeRange task = Some r \<Longrightarrow> preferredCandidate task r slots i \<Longrightarrow>
   \<forall>j<i. \<not> preferredCandidate task r slots j \<Longrightarrow>
   scheduleTaskWithPreference task slots
   = (Some (placeInSlot task (slots ! i)), markUnavailable slots i)"
  using find_upt_first [of i "length slots" "preferredCandidate task r slots"]
  by (simp add: scheduleTaskWithPreference_find preferredCandidate_def)

lemma scheduleTaskWithPreference_none:
  "preferredTimeRange task = Some r \<Longrightarrow> \<forall>i. \<not> preferredCandidate task r slots i \<Longrightarrow>
   scheduleTaskWithPreference task slots = (None, slots)"
  using find_upt_none [of "length slots" "preferredCandidate task r slots"]
  by (simp add: scheduleTaskWithPreference_find)

lemma scheduleFlexibleTask_first:
  "flexibleCandidate task slots i \<Longrightarrow> \<forall>j<i. \<not> flexibleCandidate task slots j \<Longrightarrow>
   scheduleFlexibleTask task slots
   = (Some (placeInSlot task (slots ! i)), markUnavailable slots i)"
  using find_upt_first [of i "length slots" "flexibleCandidate task slots"]
  by (simp add: scheduleFlexibleTask_find flexibleCandidate_def)

lemma scheduleFlexibleTask_none:
  "\<forall>i. \<not> flexibleCandidate task slots i \<Longrightarrow> scheduleFlexibleTask task slots = (None, slots)"
  using find_upt_none [of "length slots" "flexibleCandidate task slots"]
  by (simp add: scheduleFlexibleTask_find)

section \<open>Preferred-window placement\<close>

lemma scheduleLoop_preferred_step:
  "\<not> (type task = FIXED \<and> startTime task \<noteq> None) \<Longrightarrow> preferredTimeRange task = Some r \<Longrightarrow>
   scheduleTaskWithPreference task slots = (res, slots') \<Longrightarrow>
   scheduleLoop sch clk (task # rest) slots k acc
   = scheduleLoop sch clk rest slots' k (case res of Some t \<Rightarrow> acc @ [t] | None \<Rightarrow> acc)"
  by (simp add: scheduleTask_slot_routes)

lemma scheduleLoop_flexible_step:
  "\<not> (type task = FIXED \<and> startTime task \<noteq> None) \<Longrightarrow> preferredTimeRange task = None \<Longrightarrow>
   scheduleFlexibleTask task slots = (res, slots') \<Longrightarrow>
   scheduleLoop sch clk (task # rest) slots k acc
   = scheduleLoop sch clk rest slots' k (case res of Some t \<Rightarrow> acc @ [t] | None \<Rightarrow> acc)"
  by (simp add: scheduleTask_slot_routes)

text \<open>
  C7. For a task with a preferred time range, placement takes the first position of the slot
  list (the grid is in chronological order) whose slot is available, lies within the window
  and is at least as long as the duration: it marks that slot unavailable and returns the
  task with \<open>startTime\<close> the slot's start and \<open>endTime\<close> the start plus the duration, and
  the loop appends it to the output and goes on with the updated slots. The slot list
  returned is the given one updated at that position: the same length, the chosen slot no
  longer available with its boundaries kept, every other position unchanged. If no
  position qualifies, it returns no placement and leaves the slots as they are, and the
  loop goes on without the task.
\<close>

theorem scheduleTaskWithPreference_first_fit:
  "preferredTimeRange task = Some r \<Longrightarrow>
   (\<forall>i. preferredCandidate task r slots i \<and> (\<forall>j<i. \<not> preferredCandidate task r slots j) \<longrightarrow>
      scheduleTaskWithPreference task slots
        = (Some (placeInSlot task (slots ! i)), markUnavailable slots i)
      \<and> fst (scheduleTaskWithPreference task slots)
        = Some (task\<lparr>startTime := Some (slot_start (slots ! i)),
                      endTime := Some (slot_start (slots ! i) + duration task * 60000)\<rparr>)
      \<and> snd (scheduleTaskWithPreference task slots)
        = slots[i := (slots ! i)\<lparr>available := False\<rparr>]
      \<and> length (snd (scheduleTaskWithPreference task slots)) = length slots
      \<and> \<not> available (snd (scheduleTaskWithPreference task slots) ! i)
      \<and> slot_start (snd (scheduleTaskWithPreference task slots) ! i) = slot_start (slots ! i)
      \<and> slot_end (snd (scheduleTaskWithPreference task slots) ! i) = slot_end (slots ! i)
      \<and> (\<forall>j. j < length slots \<and> j \<noteq> i \<longrightarrow>
            snd (scheduleTaskWithPreference task slots) ! j = slots ! j)
      \<and> (\<not> (type task = FIXED \<and> startTime task \<noteq> None) \<longrightarrow>
           scheduleLoop sch clk (task # rest) slots k acc
           = scheduleLoop sch clk rest (markUnavailable slots i) k
               (acc @ [placeInSlot task (slots ! i)])
           \<and> scheduleLoop sch clk (task # rest) slots k acc
             = scheduleLoop sch clk rest (slots[i := (slots ! i)\<lparr>available := False\<rparr>]) k
                 (acc @ [task\<lparr>startTime := Some (slot_start (slots ! i)),
                              endTime := Some (slot_start (slots ! i)
                                               + duration task * 60000)\<rparr>])))
   \<and> ((\<forall>i. \<not> preferredCandidate task r slots i) \<longrightarrow>
        scheduleTaskWithPreference task slots = (None, slots)
        \<and> (\<not> (type task = FIXED \<and> startTime task \<noteq> None) \<longrightarrow>
             scheduleLoop sch clk (task # rest) slots k acc
             = scheduleLoop sch clk rest slots k acc))"
proof -
  assume r: "preferredTimeRange task = Some r"
  let ?res = "scheduleTaskWithPreference task slots"
  have found: "\<And>i. preferredCandidate task r slots i
                    \<and> (\<forall>j<i. \<not> preferredCandidate task r slots j) \<Longrightarrow>
      ?res = (Some (placeInSlot task (slots ! i)), markUnavailable slots i)
      \<and> fst ?res
        = Some (task\<lparr>startTime := Some (slot_start (slots ! i)),
                      endTime := Some (slot_start (slots ! i) + duration task * 60000)\<rparr>)
      \<and> snd ?res = slots[i := (slots ! i)\<lparr>available := False\<rparr>]
      \<and> length (snd ?res) = length slots
      \<and> \<not> available (snd ?res ! i)
      \<and> slot_start (snd ?res ! i) = slot_start (slots ! i)
      \<and> slot_end (snd ?res ! i) = slot_end (slots ! i)
      \<and> (\<forall>j. j < length slots \<and> j \<noteq> i \<longrightarrow> snd ?res ! j = slots ! j)
      \<and> (\<not> (type task = FIXED \<and> startTime task \<noteq> None) \<longrightarrow>
           scheduleLoop sch clk (task # rest) slots k acc
           = scheduleLoop sch clk rest (markUnavailable slots i) k
               (acc @ [placeInSlot task (slots ! i)])
           \<and> scheduleLoop sch clk (task # rest) slots k acc
             = scheduleLoop sch clk rest (slots[i := (slots ! i)\<lparr>available := False\<rparr>]) k
                 (acc @ [task\<lparr>startTime := Some (slot_start (slots ! i)),
                              endTime := Some (slot_start (slots ! i)
                                               + duration task * 60000)\<rparr>]))"
  proof -
    fix i
    assume c: "preferredCandidate task r slots i
               \<and> (\<forall>j<i. \<not> preferredCandidate task r slots j)"
    have i: "i < length slots" using c by (simp add: preferredCandidate_def)
    have p: "?res = (Some (placeInSlot task (slots ! i)), markUnavailable slots i)"
      using r c by (simp add: scheduleTaskWithPreference_first)
    have f: "fst ?res
        = Some (task\<lparr>startTime := Some (slot_start (slots ! i)),
                      endTime := Some (slot_start (slots ! i) + duration task * 60000)\<rparr>)"
      by (simp add: p placeInSlot_def)
    have s: "snd ?res = slots[i := (slots ! i)\<lparr>available := False\<rparr>]"
      by (simp add: p markUnavailable_def)
    have l: "length (snd ?res) = length slots" by (simp add: s)
    have u: "\<not> available (snd ?res ! i)" using i by (simp add: s)
    have b1: "slot_start (snd ?res ! i) = slot_start (slots ! i)" using i by (simp add: s)
    have b2: "slot_end (snd ?res ! i) = slot_end (slots ! i)" using i by (simp add: s)
    have o: "\<forall>j. j < length slots \<and> j \<noteq> i \<longrightarrow> snd ?res ! j = slots ! j"
      by (simp add: s)
    have lp: "\<not> (type task = FIXED \<and> startTime task \<noteq> None) \<longrightarrow>
           scheduleLoop sch clk (task # rest) slots k acc
           = scheduleLoop sch clk rest (markUnavailable slots i) k
               (acc @ [placeInSlot task (slots ! i)])
           \<and> scheduleLoop sch clk (task # rest) slots k acc
             = scheduleLoop sch clk rest (slots[i := (slots ! i)\<lparr>available := False\<rparr>]) k
                 (acc @ [task\<lparr>startTime := Some (slot_start (slots ! i)),
                              endTime := Some (slot_start (slots ! i)
                                               + duration task * 60000)\<rparr>])"
    proof
      assume nf: "\<not> (type task = FIXED \<and> startTime task \<noteq> None)"
      have 1: "scheduleLoop sch clk (task # rest) slots k acc
           = scheduleLoop sch clk rest (markUnavailable slots i) k
               (acc @ [placeInSlot task (slots ! i)])"
        using scheduleLoop_preferred_step [OF nf r p] by simp
      then have 2: "scheduleLoop sch clk (task # rest) slots k acc
             = scheduleLoop sch clk rest (slots[i := (slots ! i)\<lparr>available := False\<rparr>]) k
                 (acc @ [task\<lparr>startTime := Some (slot_start (slots ! i)),
                              endTime := Some (slot_start (slots ! i)
                                               + duration task * 60000)\<rparr>])"
        by (simp add: markUnavailable_def placeInSlot_def)
      show "scheduleLoop sch clk (task # rest) slots k acc
           = scheduleLoop sch clk rest (markUnavailable slots i) k
               (acc @ [placeInSlot task (slots ! i)])
           \<and> scheduleLoop sch clk (task # rest) slots k acc
             = scheduleLoop sch clk rest (slots[i := (slots ! i)\<lparr>available := False\<rparr>]) k
                 (acc @ [task\<lparr>startTime := Some (slot_start (slots ! i)),
                              endTime := Some (slot_start (slots ! i)
                                               + duration task * 60000)\<rparr>])"
        using 1 2 by (rule conjI)
    qed
    from p f s l u b1 b2 o lp
    show "?res = (Some (placeInSlot task (slots ! i)), markUnavailable slots i)
      \<and> fst ?res
        = Some (task\<lparr>startTime := Some (slot_start (slots ! i)),
                      endTime := Some (slot_start (slots ! i) + duration task * 60000)\<rparr>)
      \<and> snd ?res = slots[i := (slots ! i)\<lparr>available := False\<rparr>]
      \<and> length (snd ?res) = length slots
      \<and> \<not> available (snd ?res ! i)
      \<and> slot_start (snd ?res ! i) = slot_start (slots ! i)
      \<and> slot_end (snd ?res ! i) = slot_end (slots ! i)
      \<and> (\<forall>j. j < length slots \<and> j \<noteq> i \<longrightarrow> snd ?res ! j = slots ! j)
      \<and> (\<not> (type task = FIXED \<and> startTime task \<noteq> None) \<longrightarrow>
           scheduleLoop sch clk (task # rest) slots k acc
           = scheduleLoop sch clk rest (markUnavailable slots i) k
               (acc @ [placeInSlot task (slots ! i)])
           \<and> scheduleLoop sch clk (task # rest) slots k acc
             = scheduleLoop sch clk rest (slots[i := (slots ! i)\<lparr>available := False\<rparr>]) k
                 (acc @ [task\<lparr>startTime := Some (slot_start (slots ! i)),
                              endTime := Some (slot_start (slots ! i)
                                               + duration task * 60000)\<rparr>]))"
      by (intro conjI)
  qed
  have none: "(\<forall>i. \<not> preferredCandidate task r slots i) \<longrightarrow>
        ?res = (None, slots)
        \<and> (\<not> (type task = FIXED \<and> startTime task \<noteq> None) \<longrightarrow>
             scheduleLoop sch clk (task # rest) slots k acc
             = scheduleLoop sch clk rest slots k acc)"
  proof (intro impI conjI)
    assume c: "\<forall>i. \<not> preferredCandidate task r slots i"
    show p: "?res = (None, slots)"
      using r c by (rule scheduleTaskWithPreference_none)
    assume nf: "\<not> (type task = FIXED \<and> startTime task \<noteq> None)"
    show "scheduleLoop sch clk (task # rest) slots k acc = scheduleLoop sch clk rest slots k acc"
      using scheduleLoop_preferred_step [OF nf r p] by simp
  qed
  show ?thesis
    using found none by (intro conjI allI impI) blast+
qed

lemma exampleGrid_nth:
  "i < length (generateTimeSlots exampleScheduler) \<Longrightarrow>
   generateTimeSlots exampleScheduler ! i = gridSlot 28800000 i"
  using nth_generateTimeSlots [of i exampleScheduler] by (simp add: exampleScheduler_def)

lemma exampleGrid_length: "length (generateTimeSlots exampleScheduler) = 24"
  by (simp add: length_generateTimeSlots exampleScheduler_def gridCount_def)

theorem scheduleTaskWithPreference_first_fit_witness:
  "scheduleTaskWithPreference (windowTask 20) (generateTimeSlots exampleScheduler)
   = (Some ((windowTask 20)\<lparr>startTime := Some 36000000, endTime := Some 37200000\<rparr>),
      markUnavailable (generateTimeSlots exampleScheduler) 4)
   \<and> scheduleTaskWithPreference (windowTask 90) (generateTimeSlots exampleScheduler)
     = (None, generateTimeSlots exampleScheduler)
   \<and> scheduleLoop exampleScheduler noon [windowTask 90] (generateTimeSlots exampleScheduler) 0 []
     = Inr []
   \<and> length (snd (scheduleTaskWithPreference (windowTask 20)
                    (generateTimeSlots exampleScheduler))) = 24
   \<and> \<not> available (snd (scheduleTaskWithPreference (windowTask 20)
                           (generateTimeSlots exampleScheduler)) ! 4)
   \<and> available (generateTimeSlots exampleScheduler ! 4)
   \<and> snd (scheduleTaskWithPreference (windowTask 20) (generateTimeSlots exampleScheduler)) ! 5
     = \<lparr>slot_start = 37800000, slot_end = 39600000, available = True\<rparr>
   \<and> scheduleLoop exampleScheduler noon [windowTask 20, windowTask 20]
       (generateTimeSlots exampleScheduler) 0 []
     = Inr [(windowTask 20)\<lparr>startTime := Some 36000000, endTime := Some 37200000\<rparr>,
            (windowTask 20)\<lparr>startTime := Some 37800000, endTime := Some 39000000\<rparr>]"
proof -
  let ?g = "generateTimeSlots exampleScheduler"
  let ?r = "\<lparr>range_start = 36000000, range_end = 39600000\<rparr>"
  let ?w = "windowTask 20"
  have r: "\<And>d. preferredTimeRange (windowTask d) = Some ?r"
    by (simp add: windowTask_def exampleTask_def)
  have nf: "\<And>d. \<not> (type (windowTask d) = FIXED \<and> startTime (windowTask d) \<noteq> None)"
    by (simp add: windowTask_def exampleTask_def)
  have d: "\<And>d. duration (windowTask d) = d"
    by (simp add: windowTask_def exampleTask_def)
  have g4: "?g ! 4 = gridSlot 28800000 4"
    by (rule exampleGrid_nth) (simp add: exampleGrid_length)
  have g5: "?g ! 5 = gridSlot 28800000 5"
    by (rule exampleGrid_nth) (simp add: exampleGrid_length)
  have c4: "preferredCandidate ?w ?r ?g 4"
    by (simp add: preferredCandidate_def g4 gridSlot_def exampleGrid_length d)
  have lt4: "\<forall>j<4. \<not> preferredCandidate ?w ?r ?g j"
  proof (intro allI impI)
    fix j :: nat
    assume j: "j < 4"
    then have "?g ! j = gridSlot 28800000 j"
      by (intro exampleGrid_nth) (simp add: exampleGrid_length)
    moreover have "int j * 1800000 < 4 * 1800000" using j by simp
    ultimately show "\<not> preferredCandidate ?w ?r ?g j"
      by (simp add: preferredCandidate_def gridSlot_def)
  qed
  have none: "\<forall>i. \<not> preferredCandidate (windowTask 90) ?r ?g i"
  proof
    fix i
    show "\<not> preferredCandidate (windowTask 90) ?r ?g i"
    proof (cases "i < length ?g")
      case True
      then have "?g ! i = gridSlot 28800000 i" by (rule exampleGrid_nth)
      then show ?thesis by (simp add: preferredCandidate_def gridSlot_def d)
    next
      case False
      then show ?thesis by (simp add: preferredCandidate_def)
    qed
  qed
  note t20 = scheduleTaskWithPreference_first_fit
               [where task = ?w and r = ?r and slots = ?g, OF r]
  note t90 = scheduleTaskWithPreference_first_fit
               [where task = "windowTask 90" and r = ?r and slots = ?g
                  and sch = exampleScheduler and clk = noon and rest = "[]" and k = 0
                  and acc = "[]", OF r]
  note f20 = t20 [THEN conjunct1, rule_format, OF conjI [OF c4 lt4]]
  have "scheduleTaskWithPreference ?w ?g
        = (Some (placeInSlot ?w (?g ! 4)), markUnavailable ?g 4)"
    using f20 [THEN conjunct1] .
  then have 1: "scheduleTaskWithPreference ?w ?g
   = (Some (?w\<lparr>startTime := Some 36000000, endTime := Some 37200000\<rparr>),
      markUnavailable ?g 4)"
    by (simp add: placeInSlot_def g4 gridSlot_def d)
  have 2: "scheduleTaskWithPreference (windowTask 90) ?g = (None, ?g)"
    using t90 [THEN conjunct2] none by blast
  have "scheduleLoop exampleScheduler noon [windowTask 90] ?g 0 []
        = scheduleLoop exampleScheduler noon [] ?g 0 []"
    using t90 [THEN conjunct2] none nf by blast
  then have 3: "scheduleLoop exampleScheduler noon [windowTask 90] ?g 0 [] = Inr []"
    by simp
  have 4: "length (snd (scheduleTaskWithPreference ?w ?g)) = 24"
    using f20 [THEN conjunct2, THEN conjunct2, THEN conjunct2, THEN conjunct1]
    by (simp add: exampleGrid_length)
  have 5: "\<not> available (snd (scheduleTaskWithPreference ?w ?g) ! 4)"
    using f20 [THEN conjunct2, THEN conjunct2, THEN conjunct2, THEN conjunct2, THEN conjunct1] .
  have 6: "available (?g ! 4)"
    by (simp add: g4 gridSlot_def)
  have oth: "\<forall>j. j < length ?g \<and> j \<noteq> 4 \<longrightarrow>
               snd (scheduleTaskWithPreference ?w ?g) ! j = ?g ! j"
    using f20 [THEN conjunct2, THEN conjunct2, THEN conjunct2, THEN conjunct2, THEN conjunct2,
               THEN conjunct2, THEN conjunct2, THEN conjunct1] .
  have "snd (scheduleTaskWithPreference ?w ?g) ! 5 = ?g ! 5"
    using oth [rule_format, of 5] by (simp add: exampleGrid_length)
  then have 7: "snd (scheduleTaskWithPreference ?w ?g) ! 5
                = \<lparr>slot_start = 37800000, slot_end = 39600000, available = True\<rparr>"
    by (simp add: g5 gridSlot_def)
  have 8: "scheduleLoop exampleScheduler noon [?w, ?w] ?g 0 []
     = Inr [?w\<lparr>startTime := Some 36000000, endTime := Some 37200000\<rparr>,
            ?w\<lparr>startTime := Some 37800000, endTime := Some 39000000\<rparr>]"
    by code_simp
  show ?thesis using 1 2 3 4 5 6 7 8 by blast
qed

section \<open>Flexible placement\<close>

lemma gridCount_two: "ws + 3600000 \<le> we \<Longrightarrow> 2 \<le> gridCount ws we"
proof -
  assume a: "ws + 3600000 \<le> we"
  then have "ws < we" and "ws + 1800000 < we" by simp_all
  then show ?thesis
    using gridCount_step [of ws we] gridCount_step [of "ws + 1800000" we] by simp
qed

lemma sortBy_two_flexible:
  "type t1 = FLEXIBLE \<Longrightarrow> type t2 = FLEXIBLE \<Longrightarrow> sortBy compareTasks [t1, t2] = [t1, t2]"
  by (simp add: sortBy_def compareTasks_def taskRank_by_type)

lemma two_flexible_tasks:
  assumes h: "h (tasks sch) = [t1, t2]"
    and ty: "type t1 = FLEXIBLE" "type t2 = FLEXIBLE"
    and pr: "preferredTimeRange t1 = None" "preferredTimeRange t2 = None"
    and du: "duration t1 = 30" "duration t2 = 30"
    and w: "workdayStart sch + 3600000 \<le> workdayEnd sch"
  shows "snd (autoSchedule sch clk k h)
         = Inr [t1\<lparr>startTime := Some (workdayStart sch),
                   endTime := Some (workdayStart sch + 1800000)\<rparr>,
                t2\<lparr>startTime := Some (workdayStart sch + 1800000),
                   endTime := Some (workdayStart sch + 3600000)\<rparr>]"
proof -
  let ?g = "generateTimeSlots sch"
  let ?ws = "workdayStart sch"
  have len: "2 \<le> length ?g"
    using gridCount_two [OF w] by (simp add: length_generateTimeSlots)
  have l0: "0 < length ?g" and l1: "1 < length ?g"
    using len by linarith+
  have g0: "?g ! 0 = gridSlot ?ws 0"
    using nth_generateTimeSlots [OF l0] .
  have g1: "?g ! 1 = gridSlot ?ws 1"
    using nth_generateTimeSlots [OF l1] .
  have nf1: "\<not> (type t1 = FIXED \<and> startTime t1 \<noteq> None)"
    and nf2: "\<not> (type t2 = FIXED \<and> startTime t2 \<noteq> None)"
    using ty by simp_all
  have c1: "flexibleCandidate t1 ?g 0"
    using l0 g0 du by (simp add: flexibleCandidate_def gridSlot_def)
  have p1: "scheduleFlexibleTask t1 ?g = (Some (placeInSlot t1 (?g ! 0)), markUnavailable ?g 0)"
    using c1 by (simp add: scheduleFlexibleTask_first)
  let ?g' = "markUnavailable ?g 0"
  have len': "length ?g' = length ?g" by (simp add: markUnavailable_def)
  have g'0: "\<not> available (?g' ! 0)" using l0 by (simp add: markUnavailable_def)
  have g'1: "?g' ! 1 = gridSlot ?ws 1" using l1 g1 by (simp add: markUnavailable_def)
  have c2: "flexibleCandidate t2 ?g' 1"
    using l1 len' g'1 du by (simp add: flexibleCandidate_def gridSlot_def)
  have n2: "\<forall>j<1. \<not> flexibleCandidate t2 ?g' j"
    using g'0 by (simp add: flexibleCandidate_def)
  have p2: "scheduleFlexibleTask t2 ?g' = (Some (placeInSlot t2 (?g' ! 1)), markUnavailable ?g' 1)"
    using c2 n2 by (rule scheduleFlexibleTask_first)
  have "scheduleLoop sch clk [t1, t2] ?g k []
        = scheduleLoop sch clk [t2] ?g' k [placeInSlot t1 (?g ! 0)]"
    using scheduleLoop_flexible_step [OF nf1 pr(1) p1, of sch clk "[t2]" k "[]"] by simp
  also have "\<dots> = scheduleLoop sch clk [] (markUnavailable ?g' 1) k
                    [placeInSlot t1 (?g ! 0), placeInSlot t2 (?g' ! 1)]"
    using scheduleLoop_flexible_step [OF nf2 pr(2) p2, of sch clk "[]" k "[placeInSlot t1 (?g ! 0)]"]
    by simp
  also have "\<dots> = Inr [placeInSlot t1 (gridSlot ?ws 0), placeInSlot t2 (gridSlot ?ws 1)]"
    using g0 g'1 by simp
  finally have "scheduleLoop sch clk [t1, t2] ?g k []
        = Inr [placeInSlot t1 (gridSlot ?ws 0), placeInSlot t2 (gridSlot ?ws 1)]" .
  then show ?thesis
    using h ty du
    by (simp add: autoSchedule_def prioritizeTasks_def sortBy_two_flexible
                  placeInSlot_def gridSlot_def)
qed

text \<open>
  C8. Flexible placement takes the first position of the slot list whose slot is available
  and at least as long as the duration, marks it unavailable and returns the task placed
  there; the slot list returned has the same length, the chosen slot no longer available
  with its boundaries kept, and every other position unchanged. If there is none it
  returns no placement and the loop goes on without the task.
  Two Flexible tasks of 30 minutes, over a workday of at least an hour, are placed into the
  first and the second slot of the grid.
\<close>

theorem scheduleFlexibleTask_first_fit:
  "(\<forall>i. flexibleCandidate task slots i \<and> (\<forall>j<i. \<not> flexibleCandidate task slots j) \<longrightarrow>
      scheduleFlexibleTask task slots
        = (Some (placeInSlot task (slots ! i)), markUnavailable slots i)
      \<and> (\<not> (type task = FIXED \<and> startTime task \<noteq> None) \<and> preferredTimeRange task = None \<longrightarrow>
           scheduleLoop sch clk (task # rest) slots k acc
           = scheduleLoop sch clk rest (markUnavailable slots i) k
               (acc @ [placeInSlot task (slots ! i)]))
      \<and> fst (scheduleFlexibleTask task slots)
        = Some (task\<lparr>startTime := Some (slot_start (slots ! i)),
                      endTime := Some (slot_start (slots ! i) + duration task * 60000)\<rparr>)
      \<and> snd (scheduleFlexibleTask task slots) = slots[i := (slots ! i)\<lparr>available := False\<rparr>]
      \<and> length (snd (scheduleFlexibleTask task slots)) = length slots
      \<and> \<not> available (snd (scheduleFlexibleTask task slots) ! i)
      \<and> slot_start (snd (scheduleFlexibleTask task slots) ! i) = slot_start (slots ! i)
      \<and> slot_end (snd (scheduleFlexibleTask task slots) ! i) = slot_end (slots ! i)
      \<and> (\<forall>j. j < length slots \<and> j \<noteq> i \<longrightarrow>
            snd (scheduleFlexibleTask task slots) ! j = slots ! j)
      \<and> (\<not> (type task = FIXED \<and> startTime task \<noteq> None) \<and> preferredTimeRange task = None \<longrightarrow>
           scheduleLoop sch clk (task # rest) slots k acc
           = scheduleLoop sch clk rest (slots[i := (slots ! i)\<lparr>available := False\<rparr>]) k
               (acc @ [task\<lparr>startTime := Some (slot_start (slots ! i)),
                            endTime := Some (slot_start (slots ! i)
                                             + duration task * 60000)\<rparr>])))
   \<and> ((\<forall>i. \<not> flexibleCandidate task slots i) \<longrightarrow>
        scheduleFlexibleTask task slots = (None, slots)
        \<and> (\<not> (type task = FIXED \<and> startTime task \<noteq> None) \<and> preferredTimeRange task = None \<longrightarrow>
             scheduleLoop sch clk (task # rest) slots k acc
             = scheduleLoop sch clk rest slots k acc))
   \<and> (h (tasks sch) = [t1, t2] \<and> type t1 = FLEXIBLE \<and> type t2 = FLEXIBLE
        \<and> preferredTimeRange t1 = None \<and> preferredTimeRange t2 = None
        \<and> duration t1 = 30 \<and> duration t2 = 30
        \<and> workdayStart sch + 3600000 \<le> workdayEnd sch \<longrightarrow>
        snd (autoSchedule sch clk k h)
        = Inr [t1\<lparr>startTime := Some (workdayStart sch),
                  endTime := Some (workdayStart sch + 1800000)\<rparr>,
               t2\<lparr>startTime := Some (workdayStart sch + 1800000),
                  endTime := Some (workdayStart sch + 3600000)\<rparr>])"
proof -
  let ?res = "scheduleFlexibleTask task slots"
  let ?nf = "\<not> (type task = FIXED \<and> startTime task \<noteq> None) \<and> preferredTimeRange task = None"
  have found: "\<And>i. flexibleCandidate task slots i
                    \<and> (\<forall>j<i. \<not> flexibleCandidate task slots j) \<Longrightarrow>
      ?res = (Some (placeInSlot task (slots ! i)), markUnavailable slots i)
      \<and> (?nf \<longrightarrow>
           scheduleLoop sch clk (task # rest) slots k acc
           = scheduleLoop sch clk rest (markUnavailable slots i) k
               (acc @ [placeInSlot task (slots ! i)]))
      \<and> fst ?res
        = Some (task\<lparr>startTime := Some (slot_start (slots ! i)),
                      endTime := Some (slot_start (slots ! i) + duration task * 60000)\<rparr>)
      \<and> snd ?res = slots[i := (slots ! i)\<lparr>available := False\<rparr>]
      \<and> length (snd ?res) = length slots
      \<and> \<not> available (snd ?res ! i)
      \<and> slot_start (snd ?res ! i) = slot_start (slots ! i)
      \<and> slot_end (snd ?res ! i) = slot_end (slots ! i)
      \<and> (\<forall>j. j < length slots \<and> j \<noteq> i \<longrightarrow> snd ?res ! j = slots ! j)
      \<and> (?nf \<longrightarrow>
           scheduleLoop sch clk (task # rest) slots k acc
           = scheduleLoop sch clk rest (slots[i := (slots ! i)\<lparr>available := False\<rparr>]) k
               (acc @ [task\<lparr>startTime := Some (slot_start (slots ! i)),
                            endTime := Some (slot_start (slots ! i)
                                             + duration task * 60000)\<rparr>]))"
  proof -
    fix i
    assume c: "flexibleCandidate task slots i \<and> (\<forall>j<i. \<not> flexibleCandidate task slots j)"
    have i: "i < length slots" using c by (simp add: flexibleCandidate_def)
    have p: "?res = (Some (placeInSlot task (slots ! i)), markUnavailable slots i)"
      using c by (simp add: scheduleFlexibleTask_first)
    have lp1: "?nf \<longrightarrow>
           scheduleLoop sch clk (task # rest) slots k acc
           = scheduleLoop sch clk rest (markUnavailable slots i) k
               (acc @ [placeInSlot task (slots ! i)])"
    proof
      assume nf: ?nf
      show "scheduleLoop sch clk (task # rest) slots k acc
           = scheduleLoop sch clk rest (markUnavailable slots i) k
               (acc @ [placeInSlot task (slots ! i)])"
        using scheduleLoop_flexible_step [OF conjunct1 [OF nf] conjunct2 [OF nf] p] by simp
    qed
    have f: "fst ?res
        = Some (task\<lparr>startTime := Some (slot_start (slots ! i)),
                      endTime := Some (slot_start (slots ! i) + duration task * 60000)\<rparr>)"
      by (simp add: p placeInSlot_def)
    have s: "snd ?res = slots[i := (slots ! i)\<lparr>available := False\<rparr>]"
      by (simp add: p markUnavailable_def)
    have l: "length (snd ?res) = length slots" by (simp add: s)
    have u: "\<not> available (snd ?res ! i)" using i by (simp add: s)
    have b1: "slot_start (snd ?res ! i) = slot_start (slots ! i)" using i by (simp add: s)
    have b2: "slot_end (snd ?res ! i) = slot_end (slots ! i)" using i by (simp add: s)
    have o: "\<forall>j. j < length slots \<and> j \<noteq> i \<longrightarrow> snd ?res ! j = slots ! j"
      by (simp add: s)
    have lp2: "?nf \<longrightarrow>
           scheduleLoop sch clk (task # rest) slots k acc
           = scheduleLoop sch clk rest (slots[i := (slots ! i)\<lparr>available := False\<rparr>]) k
               (acc @ [task\<lparr>startTime := Some (slot_start (slots ! i)),
                            endTime := Some (slot_start (slots ! i)
                                             + duration task * 60000)\<rparr>])"
      using lp1 by (simp add: markUnavailable_def placeInSlot_def)
    from p lp1 f s l u b1 b2 o lp2
    show "?res = (Some (placeInSlot task (slots ! i)), markUnavailable slots i)
      \<and> (?nf \<longrightarrow>
           scheduleLoop sch clk (task # rest) slots k acc
           = scheduleLoop sch clk rest (markUnavailable slots i) k
               (acc @ [placeInSlot task (slots ! i)]))
      \<and> fst ?res
        = Some (task\<lparr>startTime := Some (slot_start (slots ! i)),
                      endTime := Some (slot_start (slots ! i) + duration task * 60000)\<rparr>)
      \<and> snd ?res = slots[i := (slots ! i)\<lparr>available := False\<rparr>]
      \<and> length (snd ?res) = length slots
      \<and> \<not> available (snd ?res ! i)
      \<and> slot_start (snd ?res ! i) = slot_start (slots ! i)
      \<and> slot_end (snd ?res ! i) = slot_end (slots ! i)
      \<and> (\<forall>j. j < length slots \<and> j \<noteq> i \<longrightarrow> snd ?res ! j = slots ! j)
      \<and> (?nf \<longrightarrow>
           scheduleLoop sch clk (task # rest) slots k acc
           = scheduleLoop sch clk rest (slots[i := (slots ! i)\<lparr>available := False\<rparr>]) k
               (acc @ [task\<lparr>startTime := Some (slot_start (slots ! i)),
                            endTime := Some (slot_start (slots ! i)
                                             + duration task * 60000)\<rparr>]))"
      by (intro conjI)
  qed
  have none: "(\<forall>i. \<not> flexibleCandidate task slots i) \<longrightarrow>
        ?res = (None, slots)
        \<and> (?nf \<longrightarrow>
             scheduleLoop sch clk (task # rest) slots k acc
             = scheduleLoop sch clk rest slots k acc)"
  proof (intro impI conjI)
    assume c: "\<forall>i. \<not> flexibleCandidate task slots i"
    show p: "?res = (None, slots)"
      using c by (rule scheduleFlexibleTask_none)
    assume nf: ?nf
    show "scheduleLoop sch clk (task # rest) slots k acc = scheduleLoop sch clk rest slots k acc"
      using scheduleLoop_flexible_step [OF conjunct1 [OF nf] conjunct2 [OF nf] p] by simp
  qed
  have scen: "h (tasks sch) = [t1, t2] \<and> type t1 = FLEXIBLE \<and> type t2 = FLEXIBLE
        \<and> preferredTimeRange t1 = None \<and> preferredTimeRange t2 = None
        \<and> duration t1 = 30 \<and> duration t2 = 30
        \<and> workdayStart sch + 3600000 \<le> workdayEnd sch \<longrightarrow>
        snd (autoSchedule sch clk k h)
        = Inr [t1\<lparr>startTime := Some (workdayStart sch),
                  endTime := Some (workdayStart sch + 1800000)\<rparr>,
               t2\<lparr>startTime := Some (workdayStart sch + 1800000),
                  endTime := Some (workdayStart sch + 3600000)\<rparr>]"
  proof
    assume a: "h (tasks sch) = [t1, t2] \<and> type t1 = FLEXIBLE \<and> type t2 = FLEXIBLE
        \<and> preferredTimeRange t1 = None \<and> preferredTimeRange t2 = None
        \<and> duration t1 = 30 \<and> duration t2 = 30
        \<and> workdayStart sch + 3600000 \<le> workdayEnd sch"
    show "snd (autoSchedule sch clk k h)
        = Inr [t1\<lparr>startTime := Some (workdayStart sch),
                  endTime := Some (workdayStart sch + 1800000)\<rparr>,
               t2\<lparr>startTime := Some (workdayStart sch + 1800000),
                  endTime := Some (workdayStart sch + 3600000)\<rparr>]"
      using a by (intro two_flexible_tasks) simp_all
  qed
  have foundAll: "\<forall>i. flexibleCandidate task slots i
                    \<and> (\<forall>j<i. \<not> flexibleCandidate task slots j) \<longrightarrow>
      ?res = (Some (placeInSlot task (slots ! i)), markUnavailable slots i)
      \<and> (?nf \<longrightarrow>
           scheduleLoop sch clk (task # rest) slots k acc
           = scheduleLoop sch clk rest (markUnavailable slots i) k
               (acc @ [placeInSlot task (slots ! i)]))
      \<and> fst ?res
        = Some (task\<lparr>startTime := Some (slot_start (slots ! i)),
                      endTime := Some (slot_start (slots ! i) + duration task * 60000)\<rparr>)
      \<and> snd ?res = slots[i := (slots ! i)\<lparr>available := False\<rparr>]
      \<and> length (snd ?res) = length slots
      \<and> \<not> available (snd ?res ! i)
      \<and> slot_start (snd ?res ! i) = slot_start (slots ! i)
      \<and> slot_end (snd ?res ! i) = slot_end (slots ! i)
      \<and> (\<forall>j. j < length slots \<and> j \<noteq> i \<longrightarrow> snd ?res ! j = slots ! j)
      \<and> (?nf \<longrightarrow>
           scheduleLoop sch clk (task # rest) slots k acc
           = scheduleLoop sch clk rest (slots[i := (slots ! i)\<lparr>available := False\<rparr>]) k
               (acc @ [task\<lparr>startTime := Some (slot_start (slots ! i)),
                            endTime := Some (slot_start (slots ! i)
                                             + duration task * 60000)\<rparr>]))"
    using found by (intro allI impI)
  show ?thesis
    using foundAll none scen by (intro conjI)
qed

theorem scheduleFlexibleTask_first_fit_witness:
  "scheduleFlexibleTask (exampleTask ''a'' FLEXIBLE MEDIUM 30 None None)
     (generateTimeSlots exampleScheduler)
   = (Some ((exampleTask ''a'' FLEXIBLE MEDIUM 30 None None)
             \<lparr>startTime := Some 28800000, endTime := Some 30600000\<rparr>),
      markUnavailable (generateTimeSlots exampleScheduler) 0)
   \<and> scheduleFlexibleTask (exampleTask ''c'' FLEXIBLE MEDIUM 31 None None)
       (generateTimeSlots exampleScheduler)
     = (None, generateTimeSlots exampleScheduler)
   \<and> scheduleLoop exampleScheduler noon [exampleTask ''c'' FLEXIBLE MEDIUM 31 None None]
       (generateTimeSlots exampleScheduler) 0 []
     = Inr []
   \<and> snd (autoSchedule exampleScheduler noon 0
            (exampleHeap [exampleTask ''a'' FLEXIBLE MEDIUM 30 None None,
                          exampleTask ''b'' FLEXIBLE MEDIUM 30 None None]))
     = Inr [(exampleTask ''a'' FLEXIBLE MEDIUM 30 None None)
              \<lparr>startTime := Some 28800000, endTime := Some 30600000\<rparr>,
            (exampleTask ''b'' FLEXIBLE MEDIUM 30 None None)
              \<lparr>startTime := Some 30600000, endTime := Some 32400000\<rparr>]
   \<and> length (snd (scheduleFlexibleTask (exampleTask ''a'' FLEXIBLE MEDIUM 30 None None)
                    (generateTimeSlots exampleScheduler))) = 24
   \<and> \<not> available (snd (scheduleFlexibleTask (exampleTask ''a'' FLEXIBLE MEDIUM 30 None None)
                           (generateTimeSlots exampleScheduler)) ! 0)
   \<and> available (generateTimeSlots exampleScheduler ! 0)
   \<and> snd (scheduleFlexibleTask (exampleTask ''a'' FLEXIBLE MEDIUM 30 None None)
            (generateTimeSlots exampleScheduler)) ! 1
     = \<lparr>slot_start = 30600000, slot_end = 32400000, available = True\<rparr>"
proof -
  let ?g = "generateTimeSlots exampleScheduler"
  let ?a = "exampleTask ''a'' FLEXIBLE MEDIUM 30 None None"
  let ?b = "exampleTask ''b'' FLEXIBLE MEDIUM 30 None None"
  let ?c = "exampleTask ''c'' FLEXIBLE MEDIUM 31 None None"
  let ?h = "exampleHeap [?a, ?b]"
  have g0: "?g ! 0 = gridSlot 28800000 0"
    by (rule exampleGrid_nth) (simp add: exampleGrid_length)
  have g1: "?g ! 1 = gridSlot 28800000 1"
    by (rule exampleGrid_nth) (simp add: exampleGrid_length)
  have c0: "flexibleCandidate ?a ?g 0 \<and> (\<forall>j<0. \<not> flexibleCandidate ?a ?g j)"
    by (simp add: flexibleCandidate_def g0 gridSlot_def exampleGrid_length exampleTask_def)
  have none: "\<forall>i. \<not> flexibleCandidate ?c ?g i"
  proof
    fix i
    show "\<not> flexibleCandidate ?c ?g i"
    proof (cases "i < length ?g")
      case True
      then have "?g ! i = gridSlot 28800000 i" by (rule exampleGrid_nth)
      then show ?thesis by (simp add: flexibleCandidate_def gridSlot_def exampleTask_def)
    next
      case False
      then show ?thesis by (simp add: flexibleCandidate_def)
    qed
  qed
  have nf: "\<not> (type ?c = FIXED \<and> startTime ?c \<noteq> None) \<and> preferredTimeRange ?c = None"
    by (simp add: exampleTask_def)
  note ta = scheduleFlexibleTask_first_fit [where task = ?a and slots = ?g]
  note tc = scheduleFlexibleTask_first_fit
              [where task = ?c and slots = ?g and sch = exampleScheduler and clk = noon
                 and rest = "[]" and k = 0 and acc = "[]"]
  note ts = scheduleFlexibleTask_first_fit
              [where sch = exampleScheduler and clk = noon and k = 0 and h = ?h
                 and ?t1.0 = ?a and ?t2.0 = ?b]
  note fa = ta [THEN conjunct1, rule_format, OF c0]
  have "scheduleFlexibleTask ?a ?g = (Some (placeInSlot ?a (?g ! 0)), markUnavailable ?g 0)"
    using fa [THEN conjunct1] .
  then have 1: "scheduleFlexibleTask ?a ?g
                = (Some (?a\<lparr>startTime := Some 28800000, endTime := Some 30600000\<rparr>),
                   markUnavailable ?g 0)"
    by (simp add: placeInSlot_def g0 gridSlot_def exampleTask_def)
  have 2: "scheduleFlexibleTask ?c ?g = (None, ?g)"
    using tc [THEN conjunct2, THEN conjunct1] none by blast
  have "scheduleLoop exampleScheduler noon [?c] ?g 0 []
        = scheduleLoop exampleScheduler noon [] ?g 0 []"
    using tc [THEN conjunct2, THEN conjunct1] none nf by blast
  then have 3: "scheduleLoop exampleScheduler noon [?c] ?g 0 [] = Inr []" by simp
  have hyp: "?h (tasks exampleScheduler) = [?a, ?b] \<and> type ?a = FLEXIBLE \<and> type ?b = FLEXIBLE
        \<and> preferredTimeRange ?a = None \<and> preferredTimeRange ?b = None
        \<and> duration ?a = 30 \<and> duration ?b = 30
        \<and> workdayStart exampleScheduler + 3600000 \<le> workdayEnd exampleScheduler"
    by (simp add: exampleHeap_def exampleScheduler_def exampleTask_def)
  have "snd (autoSchedule exampleScheduler noon 0 ?h)
        = Inr [?a\<lparr>startTime := Some (workdayStart exampleScheduler),
                  endTime := Some (workdayStart exampleScheduler + 1800000)\<rparr>,
               ?b\<lparr>startTime := Some (workdayStart exampleScheduler + 1800000),
                  endTime := Some (workdayStart exampleScheduler + 3600000)\<rparr>]"
    using ts [THEN conjunct2, THEN conjunct2] hyp by blast
  then have 4: "snd (autoSchedule exampleScheduler noon 0 ?h)
     = Inr [?a\<lparr>startTime := Some 28800000, endTime := Some 30600000\<rparr>,
            ?b\<lparr>startTime := Some 30600000, endTime := Some 32400000\<rparr>]"
    by (simp add: exampleScheduler_def)
  have 5: "length (snd (scheduleFlexibleTask ?a ?g)) = 24"
    using fa [THEN conjunct2, THEN conjunct2, THEN conjunct2, THEN conjunct2, THEN conjunct1]
    by (simp add: exampleGrid_length)
  have 6: "\<not> available (snd (scheduleFlexibleTask ?a ?g) ! 0)"
    using fa [THEN conjunct2, THEN conjunct2, THEN conjunct2, THEN conjunct2, THEN conjunct2,
              THEN conjunct1] .
  have 7: "available (?g ! 0)"
    by (simp add: g0 gridSlot_def)
  have oth: "\<forall>j. j < length ?g \<and> j \<noteq> 0 \<longrightarrow> snd (scheduleFlexibleTask ?a ?g) ! j = ?g ! j"
    using fa [THEN conjunct2, THEN conjunct2, THEN conjunct2, THEN conjunct2, THEN conjunct2,
              THEN conjunct2, THEN conjunct2, THEN conjunct2, THEN conjunct1] .
  have "snd (scheduleFlexibleTask ?a ?g) ! 1 = ?g ! 1"
    using oth [rule_format, of 1] by (simp add: exampleGrid_length)
  then have 8: "snd (scheduleFlexibleTask ?a ?g) ! 1
                = \<lparr>slot_start = 30600000, slot_end = 32400000, available = True\<rparr>"
    using g1 by (simp add: gridSlot_def)
  show ?thesis using 1 2 3 4 5 6 7 8 by blast
qed

section \<open>In-place prioritization\<close>

lemma sortBy_compareTasks_descending:
  "i < j \<Longrightarrow> j < length xs \<Longrightarrow>
   taskRank (sortBy compareTasks xs ! j) \<le> taskRank (sortBy compareTasks xs ! i)"
proof -
  assume ij: "i < j" and j: "j < length xs"
  let ?f = "\<lambda>t. - int (taskRank t)"
  let ?ys = "sort_key ?f xs"
  have "sorted (map ?f ?ys)" by (rule sorted_sort_key)
  moreover have "j < length (map ?f ?ys)" using j by simp
  ultimately have "map ?f ?ys ! i \<le> map ?f ?ys ! j"
    using ij by (simp only: sorted_iff_nth_mono_less)
  then show ?thesis
    using ij j by (simp add: sortBy_compareTasks)
qed

lemma sortBy_compareTasks_stable:
  "filter (\<lambda>t. taskRank t = n) (sortBy compareTasks xs) = filter (\<lambda>t. taskRank t = n) xs"
proof -
  have "filter (\<lambda>t. - int (taskRank t) = - int n) (sort_key (\<lambda>t. - int (taskRank t)) xs)
        = filter (\<lambda>t. - int (taskRank t) = - int n) xs"
    by (rule sort_key_stable)
  then show ?thesis by (simp add: sortBy_compareTasks)
qed

lemma length_sortBy_compareTasks: "length (sortBy compareTasks xs) = length xs"
  by (simp add: sortBy_compareTasks)

text \<open>
  C9. After a run, whether it raises or not, the caller's array (the reference the
  constructor stored) holds the sorted list: the same elements, in non-increasing rank,
  elements of equal rank in their original order. No other array is written,
  \<open>prioritizeTasks\<close> returns the same reference, and the loop runs over that array.
\<close>

theorem autoSchedule_sorts_in_place:
  "fst (autoSchedule sch clk k h) (tasks sch) = sortBy compareTasks (h (tasks sch))
   \<and> mset (fst (autoSchedule sch clk k h) (tasks sch)) = mset (h (tasks sch))
   \<and> (\<forall>i j. i < j \<and> j < length (h (tasks sch)) \<longrightarrow>
         taskRank (fst (autoSchedule sch clk k h) (tasks sch) ! j)
         \<le> taskRank (fst (autoSchedule sch clk k h) (tasks sch) ! i))
   \<and> (\<forall>n. filter (\<lambda>t. taskRank t = n) (fst (autoSchedule sch clk k h) (tasks sch))
           = filter (\<lambda>t. taskRank t = n) (h (tasks sch)))
   \<and> (\<forall>r. r \<noteq> tasks sch \<longrightarrow> fst (autoSchedule sch clk k h) r = h r)
   \<and> snd (prioritizeTasks sch h) = tasks sch
   \<and> tasks (fst (newTaskScheduler setHours clk k r0)) = r0
   \<and> snd (autoSchedule sch clk k h)
     = scheduleLoop sch clk (fst (autoSchedule sch clk k h) (tasks sch))
         (generateTimeSlots sch) k []"
proof -
  have a: "fst (autoSchedule sch clk k h) = h(tasks sch := sortBy compareTasks (h (tasks sch)))"
    by (simp add: autoSchedule_def prioritizeTasks_def)
  have 1: "fst (autoSchedule sch clk k h) (tasks sch) = sortBy compareTasks (h (tasks sch))"
    by (simp add: a)
  have 2: "mset (fst (autoSchedule sch clk k h) (tasks sch)) = mset (h (tasks sch))"
    by (simp add: 1 sortBy_compareTasks)
  have 3: "\<forall>i j. i < j \<and> j < length (h (tasks sch)) \<longrightarrow>
         taskRank (fst (autoSchedule sch clk k h) (tasks sch) ! j)
         \<le> taskRank (fst (autoSchedule sch clk k h) (tasks sch) ! i)"
    by (simp add: 1 sortBy_compareTasks_descending)
  have 4: "\<forall>n. filter (\<lambda>t. taskRank t = n) (fst (autoSchedule sch clk k h) (tasks sch))
           = filter (\<lambda>t. taskRank t = n) (h (tasks sch))"
    by (simp add: 1 sortBy_compareTasks_stable)
  have 5: "\<forall>r. r \<noteq> tasks sch \<longrightarrow> fst (autoSchedule sch clk k h) r = h r"
    by (simp add: a)
  have 6: "snd (prioritizeTasks sch h) = tasks sch"
    by (simp add: prioritizeTasks_def)
  have 7: "tasks (fst (newTaskScheduler setHours clk k r0)) = r0"
    by (simp add: newTaskScheduler_def)
  have 8: "snd (autoSchedule sch clk k h)
     = scheduleLoop sch clk (fst (autoSchedule sch clk k h) (tasks sch))
         (generateTimeSlots sch) k []"
    by (simp add: autoSchedule_def prioritizeTasks_def)
  show ?thesis using 1 2 3 4 5 6 7 8 by blast
qed

theorem autoSchedule_sorts_in_place_witness:
  "fst (autoSchedule exampleScheduler noon 0
          (exampleHeap [exampleTask ''a'' FLEXIBLE LOW 30 None None,
                        exampleTask ''b'' FIXED LOW 30 (Some 32400000) None]))
       (tasks exampleScheduler)
   = [exampleTask ''b'' FIXED LOW 30 (Some 32400000) None,
      exampleTask ''a'' FLEXIBLE LOW 30 None None]
   \<and> exampleHeap [exampleTask ''a'' FLEXIBLE LOW 30 None None,
                   exampleTask ''b'' FIXED LOW 30 (Some 32400000) None] (tasks exampleScheduler)
     = [exampleTask ''a'' FLEXIBLE LOW 30 None None,
        exampleTask ''b'' FIXED LOW 30 (Some 32400000) None]
   \<and> fst (autoSchedule exampleScheduler noon 0
          (exampleHeap [exampleTask ''a'' FLEXIBLE LOW 30 None None,
                        exampleTask ''b'' FIXED LOW 30 (Some 32400000) None])) 1
     = []"
proof -
  let ?h = "exampleHeap [exampleTask ''a'' FLEXIBLE LOW 30 None None,
                        exampleTask ''b'' FIXED LOW 30 (Some 32400000) None]"
  note t = autoSchedule_sorts_in_place [of exampleScheduler noon 0 ?h]
  have s: "sortBy compareTasks (?h (tasks exampleScheduler))
           = [exampleTask ''b'' FIXED LOW 30 (Some 32400000) None,
              exampleTask ''a'' FLEXIBLE LOW 30 None None]"
    by code_simp
  have 1: "fst (autoSchedule exampleScheduler noon 0 ?h) (tasks exampleScheduler)
           = [exampleTask ''b'' FIXED LOW 30 (Some 32400000) None,
              exampleTask ''a'' FLEXIBLE LOW 30 None None]"
    using t [THEN conjunct1] s by simp
  have 2: "?h (tasks exampleScheduler)
           = [exampleTask ''a'' FLEXIBLE LOW 30 None None,
              exampleTask ''b'' FIXED LOW 30 (Some 32400000) None]"
    by (simp add: exampleHeap_def exampleScheduler_def)
  have "(1::nat) \<noteq> tasks exampleScheduler" by (simp add: exampleScheduler_def)
  then have 3: "fst (autoSchedule exampleScheduler noon 0 ?h) 1 = []"
    using t [THEN conjunct2, THEN conjunct2, THEN conjunct2, THEN conjunct2, THEN conjunct1]
    by (simp add: exampleHeap_def)
  show ?thesis using 1 2 3 by blast
qed

section \<open>No double booking\<close>

lemma scheduleLoop_traceLoop:
  "scheduleLoop sch clk ts slots k (map snd tr)
   = (case traceLoop sch clk ts slots k tr of Inl e \<Rightarrow> Inl e | Inr tr' \<Rightarrow> Inr (map snd tr'))"
proof (induction ts arbitrary: slots k tr)
  case Nil
  then show ?case by simp
next
  case (Cons a ts)
  show ?case
  proof (cases "scheduleTask sch clk k a slots")
    case (Inl e)
    then show ?thesis by simp
  next
    case (Inr r)
    obtain res slots' k' where r: "r = (res, slots', k')" by (cases r) auto
    show ?thesis
    proof (cases res)
      case None
      then show ?thesis using Inr r Cons.IH [of slots' k' tr] by simp
    next
      case (Some t)
      then show ?thesis using Inr r Cons.IH [of slots' k' "tr @ [(a, t)]"] by simp
    qed
  qed
qed

lemma find_Some_holds: "List.find R xs = Some i \<Longrightarrow> R i \<and> i \<in> set xs"
  by (auto simp: find_Some_iff)

lemma scheduleTask_slotBased_cases:
  assumes sb: "slotBased task"
    and st: "scheduleTask sch clk k task slots = Inr (res, slots', k')"
  shows "(res = None \<and> slots' = slots)
         \<or> (\<exists>i. flexibleCandidate task slots i
                \<and> res = Some (placeInSlot task (slots ! i)) \<and> slots' = markUnavailable slots i)"
proof (cases "preferredTimeRange task")
  case None
  have eq: "(res, slots') = scheduleFlexibleTask task slots"
    using sb st None by (simp add: slotBased_def scheduleTask_slot_routes prod_eq_iff)
  show ?thesis
  proof (cases "List.find (flexibleCandidate task slots) [0 ..< length slots]")
    case None
    then show ?thesis using eq by (simp add: scheduleFlexibleTask_find)
  next
    case (Some i)
    then have "flexibleCandidate task slots i" using find_Some_holds by fastforce
    then show ?thesis using eq Some by (auto simp: scheduleFlexibleTask_find)
  qed
next
  case (Some r)
  have eq: "(res, slots') = scheduleTaskWithPreference task slots"
    using sb st Some by (simp add: slotBased_def scheduleTask_slot_routes prod_eq_iff)
  show ?thesis
  proof (cases "List.find (preferredCandidate task r slots) [0 ..< length slots]")
    case None
    then show ?thesis using eq Some by (simp add: scheduleTaskWithPreference_find)
  next
    case (Some i)
    then have "preferredCandidate task r slots i" using find_Some_holds by fastforce
    then have "flexibleCandidate task slots i"
      by (simp add: preferredCandidate_def flexibleCandidate_def)
    then show ?thesis
      using eq Some \<open>preferredTimeRange task = Some r\<close>
      by (auto simp: scheduleTaskWithPreference_find)
  qed
qed

lemma scheduleTask_fixed_keeps_slots:
  "\<not> slotBased task \<Longrightarrow> scheduleTask sch clk k task slots = Inr (res, slots', k') \<Longrightarrow>
   slots' = slots"
  by (auto simp: slotBased_def scheduleTask_def split: sum.splits)

lemma length_markUnavailable: "length (markUnavailable slots i) = length slots"
  by (simp add: markUnavailable_def)

lemma nth_markUnavailable:
  "j < length slots \<Longrightarrow>
   markUnavailable slots i ! j
   = (if i = j then (slots ! j)\<lparr>available := False\<rparr> else slots ! j)"
  by (simp add: markUnavailable_def nth_list_update)

lemma gridShaped_markUnavailable:
  "gridShaped ws slots \<Longrightarrow> gridShaped ws (markUnavailable slots i)"
  by (simp add: gridShaped_def length_markUnavailable nth_markUnavailable)

lemma occupies_markUnavailable:
  "occupies ws slots p \<Longrightarrow> occupies ws (markUnavailable slots i) p"
  unfolding occupies_def
  by (auto simp: length_markUnavailable nth_markUnavailable)

lemma grid_intervals_disjoint:
  fixes ws d1 d2 :: int
  assumes "i \<noteq> j" "d1 \<le> 1800000" "d2 \<le> 1800000"
  shows "{ws + int i * 1800000 ..< ws + int i * 1800000 + d1}
         \<inter> {ws + int j * 1800000 ..< ws + int j * 1800000 + d2} = {}"
proof (cases "i < j")
  case True
  then have "int i + 1 \<le> int j" by simp
  then have "(int i + 1) * 1800000 \<le> int j * 1800000" by simp
  then have "int i * 1800000 + 1800000 \<le> int j * 1800000" by (simp add: algebra_simps)
  then show ?thesis using assms by auto
next
  case False
  then have "int j + 1 \<le> int i" using assms(1) by simp
  then have "(int j + 1) * 1800000 \<le> int i * 1800000" by simp
  then have "int j * 1800000 + 1800000 \<le> int i * 1800000" by (simp add: algebra_simps)
  then show ?thesis using assms by auto
qed

lemma occupies_new_disjoint:
  assumes g: "gridShaped ws slots"
    and o: "occupies ws slots p"
    and c: "flexibleCandidate task slots i"
  shows "disjointPlaced (snd p) (placeInSlot task (slots ! i))"
proof -
  obtain i' where i': "i' < length slots" "\<not> available (slots ! i')"
      "startTime (snd p) = Some (ws + int i' * 1800000)"
      "endTime (snd p) = Some (ws + int i' * 1800000 + duration (fst p) * 60000)"
      "duration (fst p) * 60000 \<le> 1800000"
    using o unfolding occupies_def by blast
  have i: "i < length slots" "available (slots ! i)"
      "duration task * 60000 \<le> slot_end (slots ! i) - slot_start (slots ! i)"
    using c by (simp_all add: flexibleCandidate_def)
  have gi: "slot_start (slots ! i) = ws + int i * 1800000"
      "slot_end (slots ! i) = ws + int i * 1800000 + 1800000"
    using g i(1) by (simp_all add: gridShaped_def)
  have ne: "i' \<noteq> i" using i'(2) i(2) by auto
  have d: "duration task * 60000 \<le> 1800000" using i(3) gi by simp
  have "{ws + int i' * 1800000 ..< ws + int i' * 1800000 + duration (fst p) * 60000}
         \<inter> {ws + int i * 1800000 ..< ws + int i * 1800000 + duration task * 60000} = {}"
    using ne i'(5) d by (rule grid_intervals_disjoint)
  moreover have "ws + int i' * 1800000 \<noteq> ws + int i * 1800000" using ne by simp
  ultimately show ?thesis
    unfolding disjointPlaced_def using i'(3,4) gi(1)
    by (simp add: placeInSlot_def)
qed

lemma occupies_new:
  assumes g: "gridShaped ws slots" and c: "flexibleCandidate task slots i"
  shows "occupies ws (markUnavailable slots i) (task, placeInSlot task (slots ! i))"
proof -
  have i: "i < length slots"
      "duration task * 60000 \<le> slot_end (slots ! i) - slot_start (slots ! i)"
    using c by (simp_all add: flexibleCandidate_def)
  have gi: "slot_start (slots ! i) = ws + int i * 1800000"
      "slot_end (slots ! i) = ws + int i * 1800000 + 1800000"
    using g i(1) by (simp_all add: gridShaped_def)
  have "i < length (markUnavailable slots i) \<and> \<not> available (markUnavailable slots i ! i)"
    using i(1) by (simp add: markUnavailable_def)
  moreover have "duration task * 60000 \<le> 1800000" using i(2) gi by simp
  ultimately show ?thesis
    unfolding occupies_def using gi(1)
    by (intro exI [of _ i]) (simp add: placeInSlot_def)
qed

lemma noDoubleBooking_snoc:
  assumes n: "noDoubleBooking tr"
    and new: "slotBased (fst x) \<Longrightarrow>
              \<forall>p \<in> set tr. slotBased (fst p) \<longrightarrow> disjointPlaced (snd p) (snd x)"
  shows "noDoubleBooking (tr @ [x])"
  unfolding noDoubleBooking_def
proof (intro allI impI)
  fix i j
  assume a: "i < j \<and> j < length (tr @ [x]) \<and> slotBased (fst ((tr @ [x]) ! i))
             \<and> slotBased (fst ((tr @ [x]) ! j))"
  show "disjointPlaced (snd ((tr @ [x]) ! i)) (snd ((tr @ [x]) ! j))"
  proof (cases "j < length tr")
    case True
    then have "(tr @ [x]) ! i = tr ! i" "(tr @ [x]) ! j = tr ! j"
      using a by (simp_all add: nth_append)
    then show ?thesis
      using n a True unfolding noDoubleBooking_def by simp
  next
    case False
    then have j: "j = length tr" using a by simp
    then have xi: "(tr @ [x]) ! i = tr ! i" and xj: "(tr @ [x]) ! j = x"
      using a by (simp_all add: nth_append)
    have mem: "tr ! i \<in> set tr" using a j by simp
    have "slotBased (fst x)" using a xj by simp
    then show ?thesis
      using new mem a xi xj by auto
  qed
qed

lemma runInvariant_step:
  assumes inv: "runInvariant ws slots tr"
    and st: "scheduleTask sch clk k task slots = Inr (res, slots', k')"
  shows "runInvariant ws slots' (case res of Some t \<Rightarrow> tr @ [(task, t)] | None \<Rightarrow> tr)"
proof (cases "slotBased task")
  case False
  have s: "slots' = slots" using False st by (rule scheduleTask_fixed_keeps_slots)
  show ?thesis
  proof (cases res)
    case None
    then show ?thesis using inv s by simp
  next
    case (Some t)
    have "noDoubleBooking (tr @ [(task, t)])"
      using inv False by (intro noDoubleBooking_snoc) (simp_all add: runInvariant_def)
    then show ?thesis
      using inv s Some False by (simp add: runInvariant_def)
  qed
next
  case True
  from scheduleTask_slotBased_cases [OF True st]
  show ?thesis
  proof (elim disjE exE conjE)
    assume "res = None" "slots' = slots"
    then show ?thesis using inv by simp
  next
    fix i
    assume c: "flexibleCandidate task slots i"
      and r: "res = Some (placeInSlot task (slots ! i))"
      and s: "slots' = markUnavailable slots i"
    have g: "gridShaped ws slots" using inv by (simp add: runInvariant_def)
    have old: "\<forall>p \<in> set tr. slotBased (fst p) \<longrightarrow> occupies ws slots p"
      using inv by (simp add: runInvariant_def)
    have 1: "gridShaped ws slots'" using g s by (simp add: gridShaped_markUnavailable)
    have 2: "\<forall>p \<in> set (tr @ [(task, placeInSlot task (slots ! i))]).
               slotBased (fst p) \<longrightarrow> occupies ws slots' p"
      using old s occupies_markUnavailable occupies_new [OF g c] by auto
    have "\<forall>p \<in> set tr. slotBased (fst p) \<longrightarrow>
            disjointPlaced (snd p) (placeInSlot task (slots ! i))"
      using old occupies_new_disjoint [OF g _ c] by blast
    then have 3: "noDoubleBooking (tr @ [(task, placeInSlot task (slots ! i))])"
      using inv by (intro noDoubleBooking_snoc) (simp_all add: runInvariant_def)
    show ?thesis using 1 2 3 r by (simp add: runInvariant_def)
  qed
qed

lemma traceLoop_noDoubleBooking:
  "runInvariant ws slots tr \<Longrightarrow> traceLoop sch clk ts slots k tr = Inr tr' \<Longrightarrow>
   noDoubleBooking tr'"
proof (induction ts arbitrary: slots k tr)
  case Nil
  then show ?case by (simp add: runInvariant_def)
next
  case (Cons a ts)
  show ?case
  proof (cases "scheduleTask sch clk k a slots")
    case (Inl e)
    then show ?thesis using Cons.prems(2) by simp
  next
    case (Inr r)
    obtain res slots' k' where r: "r = (res, slots', k')" by (cases r) auto
    have st: "scheduleTask sch clk k a slots = Inr (res, slots', k')" using Inr r by simp
    have inv': "runInvariant ws slots' (case res of Some t \<Rightarrow> tr @ [(a, t)] | None \<Rightarrow> tr)"
      using Cons.prems(1) st by (rule runInvariant_step)
    have "traceLoop sch clk ts slots' k' (case res of Some t \<Rightarrow> tr @ [(a, t)] | None \<Rightarrow> tr)
          = Inr tr'"
      using Cons.prems(2) st by simp
    then show ?thesis using Cons.IH [OF inv'] by simp
  qed
qed

lemma gridShaped_generateTimeSlots: "gridShaped (workdayStart sch) (generateTimeSlots sch)"
  by (simp add: gridShaped_def nth_generateTimeSlots gridSlot_def)

lemma autoScheduleTrace_noDoubleBooking:
  "autoScheduleTrace sch clk k h = Inr tr \<Longrightarrow> noDoubleBooking tr"
  unfolding autoScheduleTrace_def
  by (rule traceLoop_noDoubleBooking [of "workdayStart sch" _ "[]"])
     (simp_all add: runInvariant_def gridShaped_generateTimeSlots noDoubleBooking_def)

lemma autoSchedule_trace:
  "snd (autoSchedule sch clk k h)
   = (case autoScheduleTrace sch clk k h of Inl e \<Rightarrow> Inl e | Inr tr \<Rightarrow> Inr (map snd tr))"
  using scheduleLoop_traceLoop [of sch clk _ _ k "[]"]
  by (simp add: autoSchedule_def prioritizeTasks_def autoScheduleTrace_def)

lemma traceLoop_provenance:
  "\<forall>p \<in> set tr. fst p \<in> S \<and> placedBy sch clk p \<Longrightarrow> set ts \<subseteq> S \<Longrightarrow>
   traceLoop sch clk ts slots k tr = Inr tr' \<Longrightarrow>
   \<forall>p \<in> set tr'. fst p \<in> S \<and> placedBy sch clk p"
proof (induction ts arbitrary: slots k tr)
  case Nil
  then show ?case by simp
next
  case (Cons a ts)
  show ?case
  proof (cases "scheduleTask sch clk k a slots")
    case (Inl e)
    then show ?thesis using Cons.prems(3) by simp
  next
    case (Inr r)
    obtain res slots' k' where r: "r = (res, slots', k')" by (cases r) auto
    have st: "scheduleTask sch clk k a slots = Inr (res, slots', k')" using Inr r by simp
    let ?tr = "case res of Some t \<Rightarrow> tr @ [(a, t)] | None \<Rightarrow> tr"
    have inv: "\<forall>p \<in> set ?tr. fst p \<in> S \<and> placedBy sch clk p"
    proof (cases res)
      case None
      then show ?thesis using Cons.prems(1) by simp
    next
      case (Some t)
      have "placedBy sch clk (a, t)"
        unfolding placedBy_def using st Some by auto
      moreover have "a \<in> S" using Cons.prems(2) by simp
      ultimately show ?thesis using Cons.prems(1) Some by simp
    qed
    have sub: "set ts \<subseteq> S" using Cons.prems(2) by simp
    have "traceLoop sch clk ts slots' k' ?tr = Inr tr'"
      using Cons.prems(3) st by simp
    then show ?thesis using Cons.IH [OF inv sub] by simp
  qed
qed

lemma autoScheduleTrace_provenance:
  "autoScheduleTrace sch clk k h = Inr tr \<Longrightarrow>
   \<forall>p \<in> set tr. fst p \<in> set (h (tasks sch)) \<and> placedBy sch clk p"
  unfolding autoScheduleTrace_def
  by (rule traceLoop_provenance [where tr = "[]"])
     (simp_all add: set_sortBy_compareTasks)

text \<open>
  C5. The output of a run is the list of the placed tasks of its trace, each computed by
  \<open>scheduleTask\<close> from a task of the input; any two of them that come from tasks taking a
  slot-based placement start at different instants and have disjoint intervals
  \<open>[startTime, endTime)\<close>.
\<close>

theorem autoSchedule_no_double_booking:
  "snd (autoSchedule sch clk k h) = Inr out \<Longrightarrow>
   \<exists>tr. autoScheduleTrace sch clk k h = Inr tr \<and> map snd tr = out
     \<and> (\<forall>p \<in> set tr. fst p \<in> set (h (tasks sch)) \<and> placedBy sch clk p)
     \<and> (\<forall>i j. i < j \<and> j < length out
               \<and> slotBased (fst (tr ! i)) \<and> slotBased (fst (tr ! j)) \<longrightarrow>
           (\<exists>s1 e1 s2 e2. startTime (out ! i) = Some s1 \<and> endTime (out ! i) = Some e1
              \<and> startTime (out ! j) = Some s2 \<and> endTime (out ! j) = Some e2
              \<and> s1 \<noteq> s2 \<and> {s1 ..< e1} \<inter> {s2 ..< e2} = {}))"
proof -
  assume a: "snd (autoSchedule sch clk k h) = Inr out"
  then obtain tr where tr: "autoScheduleTrace sch clk k h = Inr tr" and out: "map snd tr = out"
    by (auto simp: autoSchedule_trace split: sum.splits)
  have n: "noDoubleBooking tr" using tr by (rule autoScheduleTrace_noDoubleBooking)
  have pv: "\<forall>p \<in> set tr. fst p \<in> set (h (tasks sch)) \<and> placedBy sch clk p"
    using tr by (rule autoScheduleTrace_provenance)
  have "\<forall>i j. i < j \<and> j < length out
               \<and> slotBased (fst (tr ! i)) \<and> slotBased (fst (tr ! j)) \<longrightarrow>
           (\<exists>s1 e1 s2 e2. startTime (out ! i) = Some s1 \<and> endTime (out ! i) = Some e1
              \<and> startTime (out ! j) = Some s2 \<and> endTime (out ! j) = Some e2
              \<and> s1 \<noteq> s2 \<and> {s1 ..< e1} \<inter> {s2 ..< e2} = {})"
  proof (intro allI impI)
    fix i j
    assume b: "i < j \<and> j < length out \<and> slotBased (fst (tr ! i)) \<and> slotBased (fst (tr ! j))"
    then have l: "i < length tr" "j < length tr" using out by auto
    have "disjointPlaced (snd (tr ! i)) (snd (tr ! j))"
      using n b l unfolding noDoubleBooking_def by blast
    moreover have "out ! i = snd (tr ! i)" "out ! j = snd (tr ! j)"
      using l out by auto
    ultimately show "\<exists>s1 e1 s2 e2. startTime (out ! i) = Some s1 \<and> endTime (out ! i) = Some e1
              \<and> startTime (out ! j) = Some s2 \<and> endTime (out ! j) = Some e2
              \<and> s1 \<noteq> s2 \<and> {s1 ..< e1} \<inter> {s2 ..< e2} = {}"
      by (simp add: disjointPlaced_def)
  qed
  then show ?thesis using tr out pv by blast
qed

theorem autoSchedule_no_double_booking_witness:
  "snd (autoSchedule exampleScheduler noon 0
          (exampleHeap [exampleTask ''a'' FLEXIBLE MEDIUM 30 None None,
                        exampleTask ''b'' ROUTINE MEDIUM 20 None
                          (Some \<lparr>range_start = 28800000, range_end = 32400000\<rparr>),
                        exampleTask ''c'' FIXED MEDIUM 60 (Some 28800000) None]))
   = Inr [(exampleTask ''c'' FIXED MEDIUM 60 (Some 28800000) None)
            \<lparr>endTime := Some 46800000\<rparr>,
          (exampleTask ''b'' ROUTINE MEDIUM 20 None
             (Some \<lparr>range_start = 28800000, range_end = 32400000\<rparr>))
            \<lparr>startTime := Some 28800000, endTime := Some 30000000\<rparr>,
          (exampleTask ''a'' FLEXIBLE MEDIUM 30 None None)
            \<lparr>startTime := Some 30600000, endTime := Some 32400000\<rparr>]
   \<and> (28800000::int) \<noteq> 30600000
   \<and> {28800000 ..< 30000000} \<inter> {30600000 ..< (32400000::int)} = {}"
proof -
  let ?a = "exampleTask ''a'' FLEXIBLE MEDIUM 30 None None"
  let ?b = "exampleTask ''b'' ROUTINE MEDIUM 20 None
              (Some \<lparr>range_start = 28800000, range_end = 32400000\<rparr>)"
  let ?c = "exampleTask ''c'' FIXED MEDIUM 60 (Some 28800000) None"
  let ?h = "exampleHeap [?a, ?b, ?c]"
  let ?out = "[?c\<lparr>endTime := Some 46800000\<rparr>,
               ?b\<lparr>startTime := Some 28800000, endTime := Some 30000000\<rparr>,
               ?a\<lparr>startTime := Some 30600000, endTime := Some 32400000\<rparr>]"
  have ev: "snd (autoSchedule exampleScheduler noon 0 ?h) = Inr ?out"
    by code_simp
  have tv: "autoScheduleTrace exampleScheduler noon 0 ?h
            = Inr [(?c, ?out ! 0), (?b, ?out ! 1), (?a, ?out ! 2)]"
    by code_simp
  obtain tr where tr: "autoScheduleTrace exampleScheduler noon 0 ?h = Inr tr"
    and dj: "\<forall>i j. i < j \<and> j < length ?out
               \<and> slotBased (fst (tr ! i)) \<and> slotBased (fst (tr ! j)) \<longrightarrow>
           (\<exists>s1 e1 s2 e2. startTime (?out ! i) = Some s1 \<and> endTime (?out ! i) = Some e1
              \<and> startTime (?out ! j) = Some s2 \<and> endTime (?out ! j) = Some e2
              \<and> s1 \<noteq> s2 \<and> {s1 ..< e1} \<inter> {s2 ..< e2} = {})"
    using autoSchedule_no_double_booking [OF ev] by blast
  have treq: "tr = [(?c, ?out ! 0), (?b, ?out ! 1), (?a, ?out ! 2)]"
    using tr tv by simp
  have sb: "slotBased (fst (tr ! 1)) \<and> slotBased (fst (tr ! 2))"
    by (simp add: treq slotBased_def exampleTask_def)
  have "\<exists>s1 e1 s2 e2. startTime (?out ! 1) = Some s1 \<and> endTime (?out ! 1) = Some e1
              \<and> startTime (?out ! 2) = Some s2 \<and> endTime (?out ! 2) = Some e2
              \<and> s1 \<noteq> s2 \<and> {s1 ..< e1} \<inter> {s2 ..< e2} = {}"
    using dj [rule_format, of 1 2] sb by simp
  then have "(28800000::int) \<noteq> 30600000
             \<and> {28800000 ..< 30000000} \<inter> {30600000 ..< (32400000::int)} = {}"
    by simp
  then show ?thesis using ev by blast
qed

end
